theory Spec2Isabelle
  imports Main "HOL-Library.Char_ord" "HOL-Library.List_Lexorder"
begin

section \<open>Data model\<close>

text \<open>
  The file \<^verbatim>\<open>inst/instance_topology.go\<close> holds the topology operators of the orchestrator.
  The types \<^verbatim>\<open>InstanceKey\<close>, \<^verbatim>\<open>BinlogCoordinates\<close> and \<^verbatim>\<open>Instance\<close> are declared in other files
  of the package; the records below carry exactly the fields that the operators read.
  A Go \<^verbatim>\<open>error\<close> is a message; \<^verbatim>\<open>nil\<close> is \<open>None\<close>.
\<close>

record InstanceKey =
  Hostname :: string
  Port :: int

record BinlogCoordinates =
  LogFile :: string
  LogPos :: int

record Instance =
  Key :: InstanceKey
  MasterKey :: InstanceKey
  SelfBinlogCoordinates :: BinlogCoordinates
  ExecBinlogCoordinates :: BinlogCoordinates
  IsLastCheckValid :: bool

type_synonym error = string

type_synonym MaintenanceToken = nat

text \<open>
  Modelled from the spec: \<^verbatim>\<open>BinlogCoordinates.SmallerThan\<close> is not in the file. The spec orders
  coordinates first by file name, then by offset.
\<close>

definition SmallerThan :: "BinlogCoordinates \<Rightarrow> BinlogCoordinates \<Rightarrow> bool" where
  "SmallerThan this other \<longleftrightarrow>
     LogFile this < LogFile other \<or> (LogFile this = LogFile other \<and> LogPos this < LogPos other)"

text \<open>The arguments handed to \<^verbatim>\<open>fmt.Sprintf\<close>: a key by value, a key by pointer, an instance, an error.\<close>

datatype fmt_arg =
    KeyArg InstanceKey
  | KeyPtrArg InstanceKey
  | InstanceArg Instance
  | ErrorArg "error option"

section \<open>Collaborators\<close>

text \<open>
  Every function the operators call that lives outside the file is a parameter: one field of
  the record \<open>services\<close>, over an abstract world state \<open>'s\<close>. A call that can change the world
  (the prober, the replication driver, the binlog matcher, maintenance leases, the audit log)
  takes the state and returns the new one with its results. The inventory reads
  (\<^verbatim>\<open>ReadInstance\<close>, \<^verbatim>\<open>ReadClusterInstances\<close>, \<^verbatim>\<open>ReadSlaveInstances\<close>) only look the state up.
  The methods of \<^verbatim>\<open>Instance\<close> and \<^verbatim>\<open>InstanceKey\<close> and \<^verbatim>\<open>fmt.Sprintf\<close> are pure functions.
  Pointers returned by collaborators are taken to be non-nil.
\<close>

record 's services =
  ReadTopologyInstance :: "InstanceKey \<Rightarrow> 's \<Rightarrow> (Instance \<times> error option) \<times> 's"
  ReadInstance :: "InstanceKey \<Rightarrow> 's \<Rightarrow> Instance \<times> bool \<times> error option"
  ReadClusterInstances :: "string \<Rightarrow> 's \<Rightarrow> Instance list \<times> error option"
  ReadSlaveInstances :: "InstanceKey \<Rightarrow> 's \<Rightarrow> Instance list \<times> error option"
  BeginMaintenance :: "InstanceKey \<Rightarrow> string \<Rightarrow> string \<Rightarrow> 's \<Rightarrow> (MaintenanceToken \<times> error option) \<times> 's"
  EndMaintenance :: "MaintenanceToken \<Rightarrow> 's \<Rightarrow> 's"
  StopSlave :: "InstanceKey \<Rightarrow> 's \<Rightarrow> (Instance \<times> error option) \<times> 's"
  StopSlaveNicely :: "InstanceKey \<Rightarrow> 's \<Rightarrow> (Instance \<times> error option) \<times> 's"
  StartSlave :: "InstanceKey \<Rightarrow> 's \<Rightarrow> (Instance \<times> error option) \<times> 's"
  StartSlaveUntilMasterCoordinates ::
    "InstanceKey \<Rightarrow> BinlogCoordinates \<Rightarrow> 's \<Rightarrow> (Instance \<times> error option) \<times> 's"
  ChangeMasterTo ::
    "InstanceKey \<Rightarrow> InstanceKey \<Rightarrow> BinlogCoordinates \<Rightarrow> 's \<Rightarrow> (Instance \<times> error option) \<times> 's"
  ResetSlave :: "InstanceKey \<Rightarrow> 's \<Rightarrow> (Instance \<times> error option) \<times> 's"
  SetReadOnly :: "InstanceKey \<Rightarrow> bool \<Rightarrow> 's \<Rightarrow> (Instance \<times> error option) \<times> 's"
  AuditOperation :: "string \<Rightarrow> InstanceKey \<Rightarrow> string \<Rightarrow> 's \<Rightarrow> 's"
  GetLastPseudoGTIDEntryInInstance ::
    "Instance \<Rightarrow> 's \<Rightarrow> (BinlogCoordinates \<times> string \<times> error option) \<times> 's"
  SearchPseudoGTIDEntryInInstance ::
    "Instance \<Rightarrow> string \<Rightarrow> 's \<Rightarrow> (BinlogCoordinates \<times> error option) \<times> 's"
  GetNextBinlogCoordinatesToMatch ::
    "Instance \<Rightarrow> BinlogCoordinates \<Rightarrow> Instance \<Rightarrow> BinlogCoordinates \<Rightarrow> 's
       \<Rightarrow> (BinlogCoordinates \<times> error option) \<times> 's"
  IsSlave :: "Instance \<Rightarrow> bool"
  SlaveRunning :: "Instance \<Rightarrow> bool"
  SQLThreadUpToDate :: "Instance \<Rightarrow> bool"
  CanMove :: "Instance \<Rightarrow> bool \<times> error option"
  CanMoveAsCoMaster :: "Instance \<Rightarrow> bool \<times> error option"
  CanMoveViaMatch :: "Instance \<Rightarrow> bool \<times> error option"
  CanReplicateFrom :: "Instance \<Rightarrow> Instance \<Rightarrow> bool \<times> error option"
  DisplayString :: "InstanceKey \<Rightarrow> string"
  Sprintf :: "string \<Rightarrow> fmt_arg list \<Rightarrow> string"

section \<open>The transcript of a run\<close>

text \<open>
  What an operator does to the outside is the sequence of calls it issues. Each lease, driver,
  matcher and audit call is recorded, in order, with its arguments and with the answer it got.
  A run threads the pair of the world state and the transcript so far.
\<close>

datatype event =
    EBeginMaintenance InstanceKey string string MaintenanceToken "error option"
  | EEndMaintenance MaintenanceToken
  | EStopSlave InstanceKey Instance "error option"
  | EStopSlaveNicely InstanceKey Instance "error option"
  | EStartSlave InstanceKey Instance "error option"
  | EStartSlaveUntilMasterCoordinates InstanceKey BinlogCoordinates Instance "error option"
  | EChangeMasterTo InstanceKey InstanceKey BinlogCoordinates Instance "error option"
  | EResetSlave InstanceKey Instance "error option"
  | ESetReadOnly InstanceKey bool Instance "error option"
  | EAuditOperation string InstanceKey string
  | EGetLastPseudoGTIDEntryInInstance Instance BinlogCoordinates string "error option"
  | ESearchPseudoGTIDEntryInInstance Instance string BinlogCoordinates "error option"
  | EGetNextBinlogCoordinatesToMatch Instance BinlogCoordinates Instance BinlogCoordinates
      BinlogCoordinates "error option"

type_synonym 's run = "'s \<times> event list"

definition logged :: "('s \<Rightarrow> 'a \<times> 's) \<Rightarrow> ('a \<Rightarrow> event) \<Rightarrow> 's run \<Rightarrow> 'a \<times> 's run" where
  "logged f ev \<sigma> = (case f (fst \<sigma>) of (a, s') \<Rightarrow> (a, (s', snd \<sigma> @ [ev a])))"

definition logged_unit :: "('s \<Rightarrow> 's) \<Rightarrow> event \<Rightarrow> 's run \<Rightarrow> 's run" where
  "logged_unit f ev \<sigma> = (f (fst \<sigma>), snd \<sigma> @ [ev])"

definition call_ReadTopologyInstance ::
  "'s services \<Rightarrow> InstanceKey \<Rightarrow> 's run \<Rightarrow> (Instance \<times> error option) \<times> 's run" where
  "call_ReadTopologyInstance c k \<sigma> =
     (case ReadTopologyInstance c k (fst \<sigma>) of (r, s') \<Rightarrow> (r, (s', snd \<sigma>)))"

definition call_BeginMaintenance ::
  "'s services \<Rightarrow> InstanceKey \<Rightarrow> string \<Rightarrow> string \<Rightarrow> 's run \<Rightarrow> (MaintenanceToken \<times> error option) \<times> 's run" where
  "call_BeginMaintenance c k owner reason =
     logged (BeginMaintenance c k owner reason) (\<lambda>(t, e). EBeginMaintenance k owner reason t e)"

definition call_EndMaintenance :: "'s services \<Rightarrow> MaintenanceToken \<Rightarrow> 's run \<Rightarrow> 's run" where
  "call_EndMaintenance c t = logged_unit (EndMaintenance c t) (EEndMaintenance t)"

definition call_StopSlave ::
  "'s services \<Rightarrow> InstanceKey \<Rightarrow> 's run \<Rightarrow> (Instance \<times> error option) \<times> 's run" where
  "call_StopSlave c k = logged (StopSlave c k) (\<lambda>(i, e). EStopSlave k i e)"

definition call_StopSlaveNicely ::
  "'s services \<Rightarrow> InstanceKey \<Rightarrow> 's run \<Rightarrow> (Instance \<times> error option) \<times> 's run" where
  "call_StopSlaveNicely c k = logged (StopSlaveNicely c k) (\<lambda>(i, e). EStopSlaveNicely k i e)"

definition call_StartSlave ::
  "'s services \<Rightarrow> InstanceKey \<Rightarrow> 's run \<Rightarrow> (Instance \<times> error option) \<times> 's run" where
  "call_StartSlave c k = logged (StartSlave c k) (\<lambda>(i, e). EStartSlave k i e)"

definition call_StartSlaveUntilMasterCoordinates ::
  "'s services \<Rightarrow> InstanceKey \<Rightarrow> BinlogCoordinates \<Rightarrow> 's run \<Rightarrow> (Instance \<times> error option) \<times> 's run" where
  "call_StartSlaveUntilMasterCoordinates c k coords =
     logged (StartSlaveUntilMasterCoordinates c k coords)
       (\<lambda>(i, e). EStartSlaveUntilMasterCoordinates k coords i e)"

definition call_ChangeMasterTo ::
  "'s services \<Rightarrow> InstanceKey \<Rightarrow> InstanceKey \<Rightarrow> BinlogCoordinates \<Rightarrow> 's run
     \<Rightarrow> (Instance \<times> error option) \<times> 's run" where
  "call_ChangeMasterTo c k mk coords =
     logged (ChangeMasterTo c k mk coords) (\<lambda>(i, e). EChangeMasterTo k mk coords i e)"

definition call_ResetSlave ::
  "'s services \<Rightarrow> InstanceKey \<Rightarrow> 's run \<Rightarrow> (Instance \<times> error option) \<times> 's run" where
  "call_ResetSlave c k = logged (ResetSlave c k) (\<lambda>(i, e). EResetSlave k i e)"

definition call_SetReadOnly ::
  "'s services \<Rightarrow> InstanceKey \<Rightarrow> bool \<Rightarrow> 's run \<Rightarrow> (Instance \<times> error option) \<times> 's run" where
  "call_SetReadOnly c k b = logged (SetReadOnly c k b) (\<lambda>(i, e). ESetReadOnly k b i e)"

definition call_AuditOperation ::
  "'s services \<Rightarrow> string \<Rightarrow> InstanceKey \<Rightarrow> string \<Rightarrow> 's run \<Rightarrow> 's run" where
  "call_AuditOperation c auditType k message =
     logged_unit (AuditOperation c auditType k message) (EAuditOperation auditType k message)"

definition call_GetLastPseudoGTIDEntryInInstance ::
  "'s services \<Rightarrow> Instance \<Rightarrow> 's run \<Rightarrow> (BinlogCoordinates \<times> string \<times> error option) \<times> 's run" where
  "call_GetLastPseudoGTIDEntryInInstance c i =
     logged (GetLastPseudoGTIDEntryInInstance c i)
       (\<lambda>(coords, text, e). EGetLastPseudoGTIDEntryInInstance i coords text e)"

definition call_SearchPseudoGTIDEntryInInstance ::
  "'s services \<Rightarrow> Instance \<Rightarrow> string \<Rightarrow> 's run \<Rightarrow> (BinlogCoordinates \<times> error option) \<times> 's run" where
  "call_SearchPseudoGTIDEntryInInstance c i text =
     logged (SearchPseudoGTIDEntryInInstance c i text)
       (\<lambda>(coords, e). ESearchPseudoGTIDEntryInInstance i text coords e)"

definition call_GetNextBinlogCoordinatesToMatch ::
  "'s services \<Rightarrow> Instance \<Rightarrow> BinlogCoordinates \<Rightarrow> Instance \<Rightarrow> BinlogCoordinates \<Rightarrow> 's run
     \<Rightarrow> (BinlogCoordinates \<times> error option) \<times> 's run" where
  "call_GetNextBinlogCoordinatesToMatch c i ic other oc =
     logged (GetNextBinlogCoordinatesToMatch c i ic other oc)
       (\<lambda>(coords, e). EGetNextBinlogCoordinatesToMatch i ic other oc coords e)"

text \<open>\<^verbatim>\<open>defer EndMaintenance(token)\<close>: the lease is released after the rest of the function has run.\<close>

definition deferred :: "('s run \<Rightarrow> 's run) \<Rightarrow> 'a \<times> 's run \<Rightarrow> 'a \<times> 's run" where
  "deferred f r = (fst r, f (snd r))"

section \<open>Topology predicates\<close>

definition GetInstanceMaster ::
  "'s services \<Rightarrow> Instance \<Rightarrow> 's run \<Rightarrow> (Instance \<times> error option) \<times> 's run" where
  "GetInstanceMaster c instance \<sigma> = call_ReadTopologyInstance c (MasterKey instance) \<sigma>"

definition InstancesAreSiblings :: "'s services \<Rightarrow> Instance \<Rightarrow> Instance \<Rightarrow> bool" where
  "InstancesAreSiblings c instance0 instance1 =
     (if \<not> IsSlave c instance0 then False
      else if \<not> IsSlave c instance1 then False
      else if Key instance0 = Key instance1 then False
      else MasterKey instance0 = MasterKey instance1)"

definition InstanceIsMasterOf :: "'s services \<Rightarrow> Instance \<Rightarrow> Instance \<Rightarrow> bool" where
  "InstanceIsMasterOf c instance0 instance1 =
     (if \<not> IsSlave c instance1 then False
      else if Key instance0 = Key instance1 then False
      else Key instance0 = MasterKey instance1)"

section \<open>MoveUp\<close>

text \<open>
  Each operator is split where the source is: the probes and gates that return early, the
  leases, the driver steps that jump to \<^verbatim>\<open>Cleanup\<close> on the first error, and the \<^verbatim>\<open>Cleanup\<close>
  block, which runs with the local variables as the jump left them.
  \<^verbatim>\<open>log.Errore(err)\<close> returns \<^verbatim>\<open>err\<close>; \<^verbatim>\<open>log.Infof\<close> and \<^verbatim>\<open>log.Debugf\<close> only print.
\<close>

definition MoveUp_drive ::
  "'s services \<Rightarrow> InstanceKey \<Rightarrow> Instance \<Rightarrow> Instance \<Rightarrow> 's run
     \<Rightarrow> (Instance \<times> Instance \<times> error option) \<times> 's run" where
  "MoveUp_drive c instanceKey instance master \<sigma> =
     (case call_StopSlave c (Key master) \<sigma> of ((master, err), \<sigma>) \<Rightarrow>
      if err \<noteq> None then ((instance, master, err), \<sigma>) else
      case call_StopSlave c instanceKey \<sigma> of ((instance, err), \<sigma>) \<Rightarrow>
      if err \<noteq> None then ((instance, master, err), \<sigma>) else
      case call_StartSlaveUntilMasterCoordinates c instanceKey (SelfBinlogCoordinates master) \<sigma> of
        ((instance, err), \<sigma>) \<Rightarrow>
      if err \<noteq> None then ((instance, master, err), \<sigma>) else
      case call_ChangeMasterTo c instanceKey (MasterKey master) (ExecBinlogCoordinates master) \<sigma> of
        ((instance, err), \<sigma>) \<Rightarrow>
      ((instance, master, err), \<sigma>))"

definition MoveUp_Cleanup ::
  "'s services \<Rightarrow> InstanceKey \<Rightarrow> Instance \<Rightarrow> Instance \<Rightarrow> error option \<Rightarrow> 's run
     \<Rightarrow> (Instance \<times> error option) \<times> 's run" where
  "MoveUp_Cleanup c instanceKey instance master err \<sigma> =
     (case call_StartSlave c instanceKey \<sigma> of ((instance, _), \<sigma>) \<Rightarrow>
      case call_StartSlave c (Key master) \<sigma> of ((master, _), \<sigma>) \<Rightarrow>
      if err \<noteq> None then ((instance, err), \<sigma>) else
      ((instance, err),
       call_AuditOperation c ''move-up'' instanceKey
         (Sprintf c ''moved up %+v. Previous master: %+v'' [KeyArg instanceKey, KeyArg (Key master)]) \<sigma>))"

definition MoveUp_maintenance ::
  "'s services \<Rightarrow> InstanceKey \<Rightarrow> Instance \<Rightarrow> Instance \<Rightarrow> 's run
     \<Rightarrow> (Instance \<times> error option) \<times> 's run" where
  "MoveUp_maintenance c instanceKey instance master \<sigma> =
     (case call_BeginMaintenance c instanceKey ''orchestrator'' ''move up'' \<sigma> of
        ((maintenanceToken, merr), \<sigma>) \<Rightarrow>
      if merr \<noteq> None then
        MoveUp_Cleanup c instanceKey instance master
          (Some (Sprintf c ''Cannot begin maintenance on %+v'' [KeyArg instanceKey])) \<sigma>
      else deferred (call_EndMaintenance c maintenanceToken)
        (case call_BeginMaintenance c (Key master) ''orchestrator''
                (Sprintf c ''child %+v moves up'' [KeyArg instanceKey]) \<sigma> of
           ((maintenanceToken, merr), \<sigma>) \<Rightarrow>
         if merr \<noteq> None then
           MoveUp_Cleanup c instanceKey instance master
             (Some (Sprintf c ''Cannot begin maintenance on %+v'' [KeyArg (Key master)])) \<sigma>
         else deferred (call_EndMaintenance c maintenanceToken)
           (case MoveUp_drive c instanceKey instance master \<sigma> of
              ((instance, master, err), \<sigma>) \<Rightarrow>
            MoveUp_Cleanup c instanceKey instance master err \<sigma>)))"

definition MoveUp ::
  "'s services \<Rightarrow> InstanceKey \<Rightarrow> 's run \<Rightarrow> (Instance \<times> error option) \<times> 's run" where
  "MoveUp c instanceKey \<sigma> =
     (case call_ReadTopologyInstance c instanceKey \<sigma> of ((instance, err), \<sigma>) \<Rightarrow>
      if err \<noteq> None then ((instance, err), \<sigma>) else
      if \<not> IsSlave c instance then
        ((instance, Some (Sprintf c ''instance is not a slave: %+v'' [KeyPtrArg instanceKey])), \<sigma>)
      else
      case ReadInstance c (Key instance) (fst \<sigma>) of (rinstance, _, _) \<Rightarrow>
      case CanMove c rinstance of (canMove, merr) \<Rightarrow>
      if \<not> canMove then ((instance, merr), \<sigma>) else
      case GetInstanceMaster c instance \<sigma> of ((master, err), \<sigma>) \<Rightarrow>
      if err \<noteq> None then
        ((instance,
          Some (Sprintf c ''Cannot GetInstanceMaster() for %+v. error=%+v''
                  [InstanceArg instance, ErrorArg err])), \<sigma>)
      else
      if \<not> IsSlave c master then
        ((instance, Some (Sprintf c ''master is not a slave itself: %+v'' [KeyArg (Key master)])), \<sigma>)
      else
      case CanReplicateFrom c instance master of (canReplicate, err) \<Rightarrow>
      if canReplicate = False then ((instance, err), \<sigma>) else
      MoveUp_maintenance c instanceKey instance master \<sigma>)"

section \<open>MoveBelow\<close>

text \<open>The equalisation step: the side with the smaller executed coordinates is advanced.\<close>

definition MoveBelow_equalize ::
  "'s services \<Rightarrow> InstanceKey \<Rightarrow> InstanceKey \<Rightarrow> Instance \<Rightarrow> Instance \<Rightarrow> 's run
     \<Rightarrow> (Instance \<times> Instance \<times> error option) \<times> 's run" where
  "MoveBelow_equalize c instanceKey siblingKey instance sibling \<sigma> =
     (if SmallerThan (ExecBinlogCoordinates instance) (ExecBinlogCoordinates sibling) then
        (case call_StartSlaveUntilMasterCoordinates c instanceKey (ExecBinlogCoordinates sibling) \<sigma> of
           ((instance, err), \<sigma>) \<Rightarrow> ((instance, sibling, err), \<sigma>))
      else if SmallerThan (ExecBinlogCoordinates sibling) (ExecBinlogCoordinates instance) then
        (case call_StartSlaveUntilMasterCoordinates c siblingKey (ExecBinlogCoordinates instance) \<sigma> of
           ((sibling, err), \<sigma>) \<Rightarrow> ((instance, sibling, err), \<sigma>))
      else ((instance, sibling, None), \<sigma>))"

definition MoveBelow_drive ::
  "'s services \<Rightarrow> InstanceKey \<Rightarrow> InstanceKey \<Rightarrow> Instance \<Rightarrow> Instance \<Rightarrow> 's run
     \<Rightarrow> (Instance \<times> Instance \<times> error option) \<times> 's run" where
  "MoveBelow_drive c instanceKey siblingKey instance sibling \<sigma> =
     (case call_StopSlave c instanceKey \<sigma> of ((instance, err), \<sigma>) \<Rightarrow>
      if err \<noteq> None then ((instance, sibling, err), \<sigma>) else
      case call_StopSlave c siblingKey \<sigma> of ((sibling, err), \<sigma>) \<Rightarrow>
      if err \<noteq> None then ((instance, sibling, err), \<sigma>) else
      case MoveBelow_equalize c instanceKey siblingKey instance sibling \<sigma> of
        ((instance, sibling, err), \<sigma>) \<Rightarrow>
      if err \<noteq> None then ((instance, sibling, err), \<sigma>) else
      case call_ChangeMasterTo c instanceKey (Key sibling) (SelfBinlogCoordinates sibling) \<sigma> of
        ((instance, err), \<sigma>) \<Rightarrow>
      ((instance, sibling, err), \<sigma>))"

definition MoveBelow_Cleanup ::
  "'s services \<Rightarrow> InstanceKey \<Rightarrow> InstanceKey \<Rightarrow> Instance \<Rightarrow> Instance \<Rightarrow> error option \<Rightarrow> 's run
     \<Rightarrow> (Instance \<times> error option) \<times> 's run" where
  "MoveBelow_Cleanup c instanceKey siblingKey instance sibling err \<sigma> =
     (case call_StartSlave c instanceKey \<sigma> of ((instance, _), \<sigma>) \<Rightarrow>
      case call_StartSlave c siblingKey \<sigma> of ((sibling, _), \<sigma>) \<Rightarrow>
      if err \<noteq> None then ((instance, err), \<sigma>) else
      ((instance, err),
       call_AuditOperation c ''move-below'' instanceKey
         (Sprintf c ''moved %+v below %+v'' [KeyArg instanceKey, KeyArg siblingKey]) \<sigma>))"

definition MoveBelow_maintenance ::
  "'s services \<Rightarrow> InstanceKey \<Rightarrow> InstanceKey \<Rightarrow> Instance \<Rightarrow> Instance \<Rightarrow> 's run
     \<Rightarrow> (Instance \<times> error option) \<times> 's run" where
  "MoveBelow_maintenance c instanceKey siblingKey instance sibling \<sigma> =
     (case call_BeginMaintenance c instanceKey ''orchestrator''
             (Sprintf c ''move below %+v'' [KeyArg siblingKey]) \<sigma> of
        ((maintenanceToken, merr), \<sigma>) \<Rightarrow>
      if merr \<noteq> None then
        MoveBelow_Cleanup c instanceKey siblingKey instance sibling
          (Some (Sprintf c ''Cannot begin maintenance on %+v'' [KeyArg instanceKey])) \<sigma>
      else deferred (call_EndMaintenance c maintenanceToken)
        (case call_BeginMaintenance c siblingKey ''orchestrator''
                (Sprintf c ''%+v moves below this'' [KeyArg instanceKey]) \<sigma> of
           ((maintenanceToken, merr), \<sigma>) \<Rightarrow>
         if merr \<noteq> None then
           MoveBelow_Cleanup c instanceKey siblingKey instance sibling
             (Some (Sprintf c ''Cannot begin maintenance on %+v'' [KeyArg siblingKey])) \<sigma>
         else deferred (call_EndMaintenance c maintenanceToken)
           (case MoveBelow_drive c instanceKey siblingKey instance sibling \<sigma> of
              ((instance, sibling, err), \<sigma>) \<Rightarrow>
            MoveBelow_Cleanup c instanceKey siblingKey instance sibling err \<sigma>)))"

definition MoveBelow ::
  "'s services \<Rightarrow> InstanceKey \<Rightarrow> InstanceKey \<Rightarrow> 's run \<Rightarrow> (Instance \<times> error option) \<times> 's run" where
  "MoveBelow c instanceKey siblingKey \<sigma> =
     (case call_ReadTopologyInstance c instanceKey \<sigma> of ((instance, err), \<sigma>) \<Rightarrow>
      if err \<noteq> None then ((instance, err), \<sigma>) else
      case call_ReadTopologyInstance c siblingKey \<sigma> of ((sibling, err), \<sigma>) \<Rightarrow>
      if err \<noteq> None then ((instance, err), \<sigma>) else
      case ReadInstance c (Key instance) (fst \<sigma>) of (rinstance, _, _) \<Rightarrow>
      case CanMove c rinstance of (canMove, merr) \<Rightarrow>
      if \<not> canMove then ((instance, merr), \<sigma>) else
      case ReadInstance c (Key sibling) (fst \<sigma>) of (rinstance, _, _) \<Rightarrow>
      case CanMove c rinstance of (canMove, merr) \<Rightarrow>
      if \<not> canMove then ((instance, merr), \<sigma>) else
      if \<not> InstancesAreSiblings c instance sibling then
        ((instance,
          Some (Sprintf c ''instances are not siblings: %+v, %+v''
                  [KeyArg instanceKey, KeyArg siblingKey])), \<sigma>)
      else
      case CanReplicateFrom c instance sibling of (canReplicate, err) \<Rightarrow>
      if \<not> canReplicate then ((instance, err), \<sigma>) else
      MoveBelow_maintenance c instanceKey siblingKey instance sibling \<sigma>)"

section \<open>MakeCoMaster\<close>

definition MakeCoMaster_Cleanup ::
  "'s services \<Rightarrow> InstanceKey \<Rightarrow> Instance \<Rightarrow> Instance \<Rightarrow> error option \<Rightarrow> 's run
     \<Rightarrow> (Instance \<times> error option) \<times> 's run" where
  "MakeCoMaster_Cleanup c instanceKey instance master err \<sigma> =
     (case call_StartSlave c (Key master) \<sigma> of ((master, _), \<sigma>) \<Rightarrow>
      if err \<noteq> None then ((instance, err), \<sigma>) else
      ((instance, err),
       call_AuditOperation c ''make-co-master'' instanceKey
         (Sprintf c ''%+v made co-master of %+v'' [KeyArg instanceKey, KeyArg (Key master)]) \<sigma>))"

definition MakeCoMaster_maintenance ::
  "'s services \<Rightarrow> InstanceKey \<Rightarrow> Instance \<Rightarrow> Instance \<Rightarrow> 's run
     \<Rightarrow> (Instance \<times> error option) \<times> 's run" where
  "MakeCoMaster_maintenance c instanceKey instance master \<sigma> =
     (case call_BeginMaintenance c instanceKey ''orchestrator''
             (Sprintf c ''make co-master of %+v'' [KeyArg (Key master)]) \<sigma> of
        ((maintenanceToken, merr), \<sigma>) \<Rightarrow>
      if merr \<noteq> None then
        MakeCoMaster_Cleanup c instanceKey instance master
          (Some (Sprintf c ''Cannot begin maintenance on %+v'' [KeyArg instanceKey])) \<sigma>
      else deferred (call_EndMaintenance c maintenanceToken)
        (case call_BeginMaintenance c (Key master) ''orchestrator''
                (Sprintf c ''%+v turns into co-master of this'' [KeyArg instanceKey]) \<sigma> of
           ((maintenanceToken, merr), \<sigma>) \<Rightarrow>
         if merr \<noteq> None then
           MakeCoMaster_Cleanup c instanceKey instance master
             (Some (Sprintf c ''Cannot begin maintenance on %+v'' [KeyArg (Key master)])) \<sigma>
         else deferred (call_EndMaintenance c maintenanceToken)
           (case call_ChangeMasterTo c (Key master) instanceKey (SelfBinlogCoordinates instance) \<sigma> of
              ((master, err), \<sigma>) \<Rightarrow>
            MakeCoMaster_Cleanup c instanceKey instance master err \<sigma>)))"

definition MakeCoMaster ::
  "'s services \<Rightarrow> InstanceKey \<Rightarrow> 's run \<Rightarrow> (Instance \<times> error option) \<times> 's run" where
  "MakeCoMaster c instanceKey \<sigma> =
     (case call_ReadTopologyInstance c instanceKey \<sigma> of ((instance, err), \<sigma>) \<Rightarrow>
      if err \<noteq> None then ((instance, err), \<sigma>) else
      case GetInstanceMaster c instance \<sigma> of ((master, err), \<sigma>) \<Rightarrow>
      if err \<noteq> None then ((instance, err), \<sigma>) else
      case ReadInstance c (Key master) (fst \<sigma>) of (rinstance, _, _) \<Rightarrow>
      case CanMoveAsCoMaster c rinstance of (canMove, merr) \<Rightarrow>
      if \<not> canMove then ((instance, merr), \<sigma>) else
      case ReadInstance c instanceKey (fst \<sigma>) of (rinstance, _, _) \<Rightarrow>
      case CanMove c rinstance of (canMove, merr) \<Rightarrow>
      if \<not> canMove then ((instance, merr), \<sigma>) else
      if instanceKey = MasterKey master then
        ((instance,
          Some (Sprintf c ''instance  %+v is already co master of %+v''
                  [KeyPtrArg instanceKey, KeyArg (Key master)])), \<sigma>)
      else
      case ReadInstance c (MasterKey master) (fst \<sigma>) of (_, found, _) \<Rightarrow>
      if found then
        ((instance,
          Some (Sprintf c ''master %+v already has known master: %+v''
                  [KeyArg (Key master), KeyArg (MasterKey master)])), \<sigma>)
      else
      case CanReplicateFrom c master instance of (canReplicate, err) \<Rightarrow>
      if \<not> canReplicate then ((instance, err), \<sigma>) else
      MakeCoMaster_maintenance c instanceKey instance master \<sigma>)"

section \<open>ResetSlaveOperation\<close>

definition ResetSlaveOperation_drive ::
  "'s services \<Rightarrow> InstanceKey \<Rightarrow> Instance \<Rightarrow> 's run \<Rightarrow> (Instance \<times> error option) \<times> 's run" where
  "ResetSlaveOperation_drive c instanceKey instance \<sigma> =
     (case (if IsSlave c instance then call_StopSlave c instanceKey \<sigma> else ((instance, None), \<sigma>)) of
        ((instance, err), \<sigma>) \<Rightarrow>
      if err \<noteq> None then ((instance, err), \<sigma>) else
      call_ResetSlave c instanceKey \<sigma>)"

definition ResetSlaveOperation_Cleanup ::
  "'s services \<Rightarrow> InstanceKey \<Rightarrow> Instance \<Rightarrow> error option \<Rightarrow> 's run
     \<Rightarrow> (Instance \<times> error option) \<times> 's run" where
  "ResetSlaveOperation_Cleanup c instanceKey instance err \<sigma> =
     (case call_StartSlave c instanceKey \<sigma> of ((instance, _), \<sigma>) \<Rightarrow>
      if err \<noteq> None then ((instance, err), \<sigma>) else
      ((instance, err),
       call_AuditOperation c ''reset slave'' instanceKey
         (Sprintf c ''%+v replication reset'' [KeyArg instanceKey]) \<sigma>))"

definition ResetSlaveOperation ::
  "'s services \<Rightarrow> InstanceKey \<Rightarrow> 's run \<Rightarrow> (Instance \<times> error option) \<times> 's run" where
  "ResetSlaveOperation c instanceKey \<sigma> =
     (case call_ReadTopologyInstance c instanceKey \<sigma> of ((instance, err), \<sigma>) \<Rightarrow>
      if err \<noteq> None then ((instance, err), \<sigma>) else
      case call_BeginMaintenance c instanceKey ''orchestrator'' ''reset slave'' \<sigma> of
        ((maintenanceToken, merr), \<sigma>) \<Rightarrow>
      if merr \<noteq> None then
        ResetSlaveOperation_Cleanup c instanceKey instance
          (Some (Sprintf c ''Cannot begin maintenance on %+v'' [KeyArg instanceKey])) \<sigma>
      else deferred (call_EndMaintenance c maintenanceToken)
        (case ResetSlaveOperation_drive c instanceKey instance \<sigma> of ((instance, err), \<sigma>) \<Rightarrow>
         ResetSlaveOperation_Cleanup c instanceKey instance err \<sigma>))"

section \<open>MatchBelow\<close>

definition MatchBelow_drive ::
  "'s services \<Rightarrow> InstanceKey \<Rightarrow> InstanceKey \<Rightarrow> Instance \<Rightarrow> Instance \<Rightarrow> 's run
     \<Rightarrow> (Instance \<times> error option) \<times> 's run" where
  "MatchBelow_drive c instanceKey otherKey instance otherInstance \<sigma> =
     (case call_StopSlave c instanceKey \<sigma> of ((instance, err), \<sigma>) \<Rightarrow>
      if err \<noteq> None then ((instance, err), \<sigma>) else
      case call_GetLastPseudoGTIDEntryInInstance c instance \<sigma> of
        ((instancePseudoGtidCoordinates, instancePseudoGtidText, err), \<sigma>) \<Rightarrow>
      if err \<noteq> None then ((instance, err), \<sigma>) else
      case call_SearchPseudoGTIDEntryInInstance c otherInstance instancePseudoGtidText \<sigma> of
        ((otherInstancePseudoGtidCoordinates, err), \<sigma>) \<Rightarrow>
      if err \<noteq> None then ((instance, err), \<sigma>) else
      case call_GetNextBinlogCoordinatesToMatch c instance instancePseudoGtidCoordinates
             otherInstance otherInstancePseudoGtidCoordinates \<sigma> of
        ((nextBinlogCoordinatesToMatch, err), \<sigma>) \<Rightarrow>
      if err \<noteq> None then ((instance, err), \<sigma>) else
      call_ChangeMasterTo c instanceKey otherKey nextBinlogCoordinatesToMatch \<sigma>)"

definition MatchBelow_Cleanup ::
  "'s services \<Rightarrow> InstanceKey \<Rightarrow> InstanceKey \<Rightarrow> Instance \<Rightarrow> error option \<Rightarrow> 's run
     \<Rightarrow> (Instance \<times> error option) \<times> 's run" where
  "MatchBelow_Cleanup c instanceKey otherKey instance err \<sigma> =
     (case call_StartSlave c instanceKey \<sigma> of ((instance, _), \<sigma>) \<Rightarrow>
      if err \<noteq> None then ((instance, err), \<sigma>) else
      ((instance, err),
       call_AuditOperation c ''match-below'' instanceKey
         (Sprintf c ''matched %+v below %+v'' [KeyArg instanceKey, KeyArg otherKey]) \<sigma>))"

definition MatchBelow_other_maintenance ::
  "'s services \<Rightarrow> InstanceKey \<Rightarrow> InstanceKey \<Rightarrow> bool \<Rightarrow> Instance \<Rightarrow> Instance \<Rightarrow> 's run
     \<Rightarrow> (Instance \<times> error option) \<times> 's run" where
  "MatchBelow_other_maintenance c instanceKey otherKey requireOtherMaintenance instance otherInstance \<sigma> =
     (if requireOtherMaintenance then
        (case call_BeginMaintenance c otherKey ''orchestrator''
                (Sprintf c ''%+v matches below this'' [KeyArg instanceKey]) \<sigma> of
           ((maintenanceToken, merr), \<sigma>) \<Rightarrow>
         if merr \<noteq> None then
           MatchBelow_Cleanup c instanceKey otherKey instance
             (Some (Sprintf c ''Cannot begin maintenance on %+v'' [KeyArg otherKey])) \<sigma>
         else deferred (call_EndMaintenance c maintenanceToken)
           (case MatchBelow_drive c instanceKey otherKey instance otherInstance \<sigma> of
              ((instance, err), \<sigma>) \<Rightarrow>
            MatchBelow_Cleanup c instanceKey otherKey instance err \<sigma>))
      else
        (case MatchBelow_drive c instanceKey otherKey instance otherInstance \<sigma> of
           ((instance, err), \<sigma>) \<Rightarrow>
         MatchBelow_Cleanup c instanceKey otherKey instance err \<sigma>))"

definition MatchBelow_maintenance ::
  "'s services \<Rightarrow> InstanceKey \<Rightarrow> InstanceKey \<Rightarrow> bool \<Rightarrow> bool \<Rightarrow> Instance \<Rightarrow> Instance \<Rightarrow> 's run
     \<Rightarrow> (Instance \<times> error option) \<times> 's run" where
  "MatchBelow_maintenance c instanceKey otherKey requireInstanceMaintenance requireOtherMaintenance
       instance otherInstance \<sigma> =
     (if requireInstanceMaintenance then
        (case call_BeginMaintenance c instanceKey ''orchestrator''
                (Sprintf c ''match below %+v'' [KeyArg otherKey]) \<sigma> of
           ((maintenanceToken, merr), \<sigma>) \<Rightarrow>
         if merr \<noteq> None then
           MatchBelow_Cleanup c instanceKey otherKey instance
             (Some (Sprintf c ''Cannot begin maintenance on %+v'' [KeyArg instanceKey])) \<sigma>
         else deferred (call_EndMaintenance c maintenanceToken)
           (MatchBelow_other_maintenance c instanceKey otherKey requireOtherMaintenance
              instance otherInstance \<sigma>))
      else
        MatchBelow_other_maintenance c instanceKey otherKey requireOtherMaintenance
          instance otherInstance \<sigma>)"

definition MatchBelow ::
  "'s services \<Rightarrow> InstanceKey \<Rightarrow> InstanceKey \<Rightarrow> bool \<Rightarrow> bool \<Rightarrow> 's run
     \<Rightarrow> (Instance \<times> error option) \<times> 's run" where
  "MatchBelow c instanceKey otherKey requireInstanceMaintenance requireOtherMaintenance \<sigma> =
     (case call_ReadTopologyInstance c instanceKey \<sigma> of ((instance, err), \<sigma>) \<Rightarrow>
      if err \<noteq> None then ((instance, err), \<sigma>) else
      if instanceKey = otherKey then
        ((instance,
          Some (Sprintf c ''MatchBelow: attempt to match an instance below itself %+v''
                  [KeyArg instanceKey])), \<sigma>)
      else
      case call_ReadTopologyInstance c otherKey \<sigma> of ((otherInstance, err), \<sigma>) \<Rightarrow>
      if err \<noteq> None then ((instance, err), \<sigma>) else
      case ReadInstance c (Key instance) (fst \<sigma>) of (rinstance, _, _) \<Rightarrow>
      case CanMoveViaMatch c rinstance of (canMove, merr) \<Rightarrow>
      if \<not> canMove then ((instance, merr), \<sigma>) else
      case CanReplicateFrom c instance otherInstance of (canReplicate, err) \<Rightarrow>
      if \<not> canReplicate then ((instance, err), \<sigma>) else
      MatchBelow_maintenance c instanceKey otherKey requireInstanceMaintenance
        requireOtherMaintenance instance otherInstance \<sigma>)"

section \<open>enslaveSiblings, MakeMaster, MakeLocalMaster\<close>

text \<open>
  \<^verbatim>\<open>enslaveSiblings\<close> starts one goroutine per eligible sibling and waits for all of them. The
  model runs them one after the other in slice order, which is one of the schedules; an error
  of a \<^verbatim>\<open>MatchBelow\<close> is only logged, and the function returns \<^verbatim>\<open>nil\<close>.
\<close>

fun enslaveSiblings ::
  "'s services \<Rightarrow> InstanceKey \<Rightarrow> Instance list \<Rightarrow> 's run \<Rightarrow> error option \<times> 's run" where
  "enslaveSiblings c instanceKey [] \<sigma> = (None, \<sigma>)"
| "enslaveSiblings c instanceKey (sibling # siblings) \<sigma> =
     (if SQLThreadUpToDate c sibling \<and> Key sibling \<noteq> instanceKey then
        enslaveSiblings c instanceKey siblings
          (snd (MatchBelow c (Key sibling) instanceKey True False \<sigma>))
      else enslaveSiblings c instanceKey siblings \<sigma>)"

definition MakeMaster_drive ::
  "'s services \<Rightarrow> InstanceKey \<Rightarrow> Instance list \<Rightarrow> 's run \<Rightarrow> error option \<times> 's run" where
  "MakeMaster_drive c instanceKey siblings \<sigma> =
     (case enslaveSiblings c instanceKey siblings \<sigma> of (err, \<sigma>) \<Rightarrow>
      if err \<noteq> None then (err, \<sigma>) else
      case call_SetReadOnly c instanceKey False \<sigma> of (_, \<sigma>) \<Rightarrow>
      (err, \<sigma>))"

definition MakeMaster_Cleanup ::
  "'s services \<Rightarrow> InstanceKey \<Rightarrow> Instance \<Rightarrow> error option \<Rightarrow> 's run
     \<Rightarrow> (Instance \<times> error option) \<times> 's run" where
  "MakeMaster_Cleanup c instanceKey instance err \<sigma> =
     (if err \<noteq> None then ((instance, err), \<sigma>) else
      ((instance, err),
       call_AuditOperation c ''make-master'' instanceKey
         (Sprintf c ''made master of %+v'' [KeyArg instanceKey]) \<sigma>))"

definition MakeMaster_maintenance ::
  "'s services \<Rightarrow> InstanceKey \<Rightarrow> Instance \<Rightarrow> Instance list \<Rightarrow> 's run
     \<Rightarrow> (Instance \<times> error option) \<times> 's run" where
  "MakeMaster_maintenance c instanceKey instance siblings \<sigma> =
     (case call_BeginMaintenance c instanceKey ''orchestrator''
             (Sprintf c ''siblings match below this'' [KeyArg instanceKey]) \<sigma> of
        ((maintenanceToken, merr), \<sigma>) \<Rightarrow>
      if merr \<noteq> None then
        MakeMaster_Cleanup c instanceKey instance
          (Some (Sprintf c ''Cannot begin maintenance on %+v'' [KeyArg instanceKey])) \<sigma>
      else deferred (call_EndMaintenance c maintenanceToken)
        (case MakeMaster_drive c instanceKey siblings \<sigma> of (err, \<sigma>) \<Rightarrow>
         MakeMaster_Cleanup c instanceKey instance err \<sigma>))"

definition MakeMaster ::
  "'s services \<Rightarrow> InstanceKey \<Rightarrow> 's run \<Rightarrow> (Instance \<times> error option) \<times> 's run" where
  "MakeMaster c instanceKey \<sigma> =
     (case call_ReadTopologyInstance c instanceKey \<sigma> of ((instance, err), \<sigma>) \<Rightarrow>
      if err \<noteq> None then ((instance, err), \<sigma>) else
      case call_ReadTopologyInstance c (MasterKey instance) \<sigma> of ((masterInstance, err), \<sigma>) \<Rightarrow>
      if err \<noteq> None \<and> IsSlave c masterInstance then
        ((instance,
          Some (Sprintf c ''MakeMaster: instance's master %+v seems to be replicating''
                  [KeyArg (Key masterInstance)])), \<sigma>)
      else
      if err \<noteq> None \<and> IsLastCheckValid masterInstance then
        ((instance,
          Some (Sprintf c ''MakeMaster: instance's master %+v seems to be accessible''
                  [KeyArg (Key masterInstance)])), \<sigma>)
      else
      if \<not> SQLThreadUpToDate c instance then
        ((instance,
          Some (Sprintf c
                  ''MakeMaster: instance's SQL thread must be up-to-date with I/O thread for %+v''
                  [KeyArg instanceKey])), \<sigma>)
      else
      case ReadSlaveInstances c (Key masterInstance) (fst \<sigma>) of (siblings, err) \<Rightarrow>
      if err \<noteq> None then ((instance, err), \<sigma>) else
      (case find (\<lambda>sibling. SmallerThan (ExecBinlogCoordinates instance)
                             (ExecBinlogCoordinates sibling)) siblings of
         Some sibling \<Rightarrow>
           ((instance,
             Some (Sprintf c ''MakeMaster: instance %+v has more advanced sibling: %+v''
                     [KeyArg instanceKey, KeyArg (Key sibling)])), \<sigma>)
       | None \<Rightarrow> MakeMaster_maintenance c instanceKey instance siblings \<sigma>))"

definition MakeLocalMaster_drive ::
  "'s services \<Rightarrow> InstanceKey \<Rightarrow> Instance \<Rightarrow> Instance \<Rightarrow> Instance list \<Rightarrow> 's run
     \<Rightarrow> (Instance \<times> error option) \<times> 's run" where
  "MakeLocalMaster_drive c instanceKey instance grandparentInstance siblings \<sigma> =
     (case call_StopSlaveNicely c instanceKey \<sigma> of ((instance, err), \<sigma>) \<Rightarrow>
      if err \<noteq> None then ((instance, err), \<sigma>) else
      case MatchBelow c instanceKey (Key grandparentInstance) False False \<sigma> of ((_, err), \<sigma>) \<Rightarrow>
      if err \<noteq> None then ((instance, err), \<sigma>) else
      case enslaveSiblings c instanceKey siblings \<sigma> of (err, \<sigma>) \<Rightarrow>
      ((instance, err), \<sigma>))"

definition MakeLocalMaster_Cleanup ::
  "'s services \<Rightarrow> InstanceKey \<Rightarrow> Instance \<Rightarrow> error option \<Rightarrow> 's run
     \<Rightarrow> (Instance \<times> error option) \<times> 's run" where
  "MakeLocalMaster_Cleanup c instanceKey instance err \<sigma> =
     (if err \<noteq> None then ((instance, err), \<sigma>) else
      ((instance, err),
       call_AuditOperation c ''make-local-master'' instanceKey
         (Sprintf c ''made master of %+v'' [KeyArg instanceKey]) \<sigma>))"

definition MakeLocalMaster_maintenance ::
  "'s services \<Rightarrow> InstanceKey \<Rightarrow> Instance \<Rightarrow> Instance \<Rightarrow> Instance list \<Rightarrow> 's run
     \<Rightarrow> (Instance \<times> error option) \<times> 's run" where
  "MakeLocalMaster_maintenance c instanceKey instance grandparentInstance siblings \<sigma> =
     (case call_BeginMaintenance c instanceKey ''orchestrator''
             (Sprintf c ''siblings match below this'' [KeyArg instanceKey]) \<sigma> of
        ((maintenanceToken, merr), \<sigma>) \<Rightarrow>
      if merr \<noteq> None then
        MakeLocalMaster_Cleanup c instanceKey instance
          (Some (Sprintf c ''Cannot begin maintenance on %+v'' [KeyArg instanceKey])) \<sigma>
      else deferred (call_EndMaintenance c maintenanceToken)
        (case MakeLocalMaster_drive c instanceKey instance grandparentInstance siblings \<sigma> of
           ((instance, err), \<sigma>) \<Rightarrow>
         MakeLocalMaster_Cleanup c instanceKey instance err \<sigma>))"

definition MakeLocalMaster ::
  "'s services \<Rightarrow> InstanceKey \<Rightarrow> 's run \<Rightarrow> (Instance \<times> error option) \<times> 's run" where
  "MakeLocalMaster c instanceKey \<sigma> =
     (case call_ReadTopologyInstance c instanceKey \<sigma> of ((instance, err), \<sigma>) \<Rightarrow>
      if err \<noteq> None then ((instance, err), \<sigma>) else
      case ReadInstance c (MasterKey instance) (fst \<sigma>) of (masterInstance, found, err) \<Rightarrow>
      if err \<noteq> None then ((instance, err), \<sigma>) else
      if \<not> found then ((instance, err), \<sigma>) else
      case call_ReadTopologyInstance c (MasterKey masterInstance) \<sigma> of
        ((grandparentInstance, err), \<sigma>) \<Rightarrow>
      if err \<noteq> None then ((instance, err), \<sigma>) else
      case ReadSlaveInstances c (Key masterInstance) (fst \<sigma>) of (siblings, err) \<Rightarrow>
      if err \<noteq> None then ((instance, err), \<sigma>) else
      (case find (\<lambda>sibling. SmallerThan (ExecBinlogCoordinates instance)
                             (ExecBinlogCoordinates sibling)) siblings of
         Some sibling \<Rightarrow>
           ((instance,
             Some (Sprintf c ''MakeMaster: instance %+v has more advanced sibling: %+v''
                     [KeyArg instanceKey, KeyArg (Key sibling)])), \<sigma>)
       | None \<Rightarrow> MakeLocalMaster_maintenance c instanceKey instance grandparentInstance siblings \<sigma>))"

section \<open>AsciiTopology\<close>

text \<open>
  The renderer works on pointers: \<^verbatim>\<open>replicationMap\<close> is keyed by \<^verbatim>\<open>*Instance\<close>. A pointer is an
  address together with the struct it points to (nothing is written through a pointer here);
  the \<open>n\<close>-th element of the slice returned by \<^verbatim>\<open>ReadClusterInstances\<close> lives at address \<open>n\<close>,
  and \<^verbatim>\<open>nil\<close> is \<open>None\<close>. Reading a field through \<^verbatim>\<open>nil\<close> panics: that outcome is
  \<open>NilPointerDereference\<close>. The recursion of \<^verbatim>\<open>getAsciiTopologyEntry\<close> follows the map, so it is
  bounded by fuel: \<open>None\<close> says the fuel ran out before the function returned.
\<close>

datatype 'a outcome = Returned 'a | NilPointerDereference

type_synonym InstancePtr = "nat \<times> Instance"

definition slaves_of :: "(nat \<rightharpoonup> InstancePtr list) \<Rightarrow> nat \<Rightarrow> InstancePtr list" where
  "slaves_of replicationMap a = (case replicationMap a of None \<Rightarrow> [] | Some slaves \<Rightarrow> slaves)"

fun append_results :: "string list outcome option list \<Rightarrow> string list \<Rightarrow> string list outcome option" where
  "append_results [] result = Some (Returned result)"
| "append_results (None # rs) result = None"
| "append_results (Some NilPointerDereference # rs) result = Some NilPointerDereference"
| "append_results (Some (Returned slavesResult) # rs) result = append_results rs (result @ slavesResult)"

fun getAsciiTopologyEntry ::
  "'s services \<Rightarrow> nat \<Rightarrow> int \<Rightarrow> InstancePtr option \<Rightarrow> (nat \<rightharpoonup> InstancePtr list)
     \<Rightarrow> string list outcome option" where
  "getAsciiTopologyEntry c fuel depth None replicationMap = Some NilPointerDereference"
| "getAsciiTopologyEntry c 0 depth (Some instance) replicationMap = None"
| "getAsciiTopologyEntry c (Suc fuel) depth (Some instance) replicationMap =
     (let prefix =
            (if depth > 0 then
               replicate (nat ((depth - 1) * 2)) CHR '' '' @
                 (if SlaveRunning c (snd instance) then ''+ '' else ''- '')
             else []);
          entry = prefix @ DisplayString c (Key (snd instance))
      in append_results
           (map (\<lambda>slave. getAsciiTopologyEntry c fuel (depth + 1) (Some slave) replicationMap)
              (slaves_of replicationMap (fst instance)))
           [entry])"

fun Join :: "string list \<Rightarrow> string \<Rightarrow> string" where
  "Join [] sep = []"
| "Join [x] sep = x"
| "Join (x # y # ys) sep = x @ sep @ Join (y # ys) sep"

definition investigate ::
  "(InstanceKey \<rightharpoonup> InstancePtr) \<Rightarrow> InstancePtr
     \<Rightarrow> (nat \<rightharpoonup> InstancePtr list) \<times> InstancePtr option
     \<Rightarrow> (nat \<rightharpoonup> InstancePtr list) \<times> InstancePtr option" where
  "investigate instancesMap instance acc =
     (case acc of (replicationMap, masterInstance) \<Rightarrow>
      (case instancesMap (MasterKey (snd instance)) of
         Some master \<Rightarrow>
           (replicationMap(fst master \<mapsto> slaves_of replicationMap (fst master) @ [instance]),
            masterInstance)
       | None \<Rightarrow> (replicationMap, Some instance)))"

definition AsciiTopology ::
  "'s services \<Rightarrow> nat \<Rightarrow> string \<Rightarrow> 's \<Rightarrow> (string \<times> error option) outcome option" where
  "AsciiTopology c fuel clusterName s =
     (case ReadClusterInstances c clusterName s of (instances, err) \<Rightarrow>
      if err \<noteq> None then Some (Returned ([], err)) else
      let ptrs = zip [0..<length instances] instances;
          instancesMap = fold (\<lambda>instance m. m(Key (snd instance) \<mapsto> instance)) ptrs Map.empty;
          acc = fold (investigate instancesMap) ptrs (Map.empty, None)
      in (case getAsciiTopologyEntry c fuel 0 (snd acc) (fst acc) of
            None \<Rightarrow> None
          | Some NilPointerDereference \<Rightarrow> Some NilPointerDereference
          | Some (Returned resultArray) \<Rightarrow> Some (Returned (Join resultArray [CHR 0x0A], None))))"

section \<open>Reading a transcript\<close>

fun is_BeginMaintenance :: "event \<Rightarrow> bool" where
  "is_BeginMaintenance (EBeginMaintenance _ _ _ _ _) = True"
| "is_BeginMaintenance _ = False"

fun is_StartSlave :: "event \<Rightarrow> bool" where
  "is_StartSlave (EStartSlave _ _ _) = True"
| "is_StartSlave _ = False"

fun is_StartSlaveUntil :: "event \<Rightarrow> bool" where
  "is_StartSlaveUntil (EStartSlaveUntilMasterCoordinates _ _ _ _) = True"
| "is_StartSlaveUntil _ = False"

fun is_ChangeMasterTo :: "event \<Rightarrow> bool" where
  "is_ChangeMasterTo (EChangeMasterTo _ _ _ _ _) = True"
| "is_ChangeMasterTo _ = False"

fun is_AuditOperation :: "event \<Rightarrow> bool" where
  "is_AuditOperation (EAuditOperation _ _ _) = True"
| "is_AuditOperation _ = False"

text \<open>The calls of the replication driver: every one of them acts on a node.\<close>

fun is_driver_call :: "event \<Rightarrow> bool" where
  "is_driver_call (EStopSlave _ _ _) = True"
| "is_driver_call (EStopSlaveNicely _ _ _) = True"
| "is_driver_call (EStartSlave _ _ _) = True"
| "is_driver_call (EStartSlaveUntilMasterCoordinates _ _ _ _) = True"
| "is_driver_call (EChangeMasterTo _ _ _ _ _) = True"
| "is_driver_call (EResetSlave _ _ _) = True"
| "is_driver_call (ESetReadOnly _ _ _ _) = True"
| "is_driver_call _ = False"

text \<open>The key of a lease request, and the key of one that was refused.\<close>

fun lease_key :: "event \<Rightarrow> InstanceKey option" where
  "lease_key (EBeginMaintenance k _ _ _ _) = Some k"
| "lease_key _ = None"

fun refused_lease :: "event \<Rightarrow> InstanceKey option" where
  "refused_lease (EBeginMaintenance k _ _ _ (Some e)) = Some k"
| "refused_lease _ = None"

definition lease_keys :: "event list \<Rightarrow> InstanceKey list" where
  "lease_keys tr = List.map_filter lease_key tr"

definition refused_leases :: "event list \<Rightarrow> InstanceKey list" where
  "refused_leases tr = List.map_filter refused_lease tr"

text \<open>The error of a matcher call that failed.\<close>

fun matcher_failure :: "event \<Rightarrow> error option" where
  "matcher_failure (EGetLastPseudoGTIDEntryInInstance _ _ _ e) = e"
| "matcher_failure (ESearchPseudoGTIDEntryInInstance _ _ _ e) = e"
| "matcher_failure (EGetNextBinlogCoordinatesToMatch _ _ _ _ _ e) = e"
| "matcher_failure _ = None"

definition matcher_failures :: "event list \<Rightarrow> error list" where
  "matcher_failures tr = List.map_filter matcher_failure tr"

text \<open>
  The driver answers a \<^verbatim>\<open>StopSlave\<close> with the refreshed instance. A transcript in which every
  such answer describes the node that was asked satisfies \<open>stops_name_their_node\<close>.
\<close>

fun stop_names_node :: "event \<Rightarrow> bool" where
  "stop_names_node (EStopSlave k i _) = (Key i = k)"
| "stop_names_node _ = True"

definition stops_name_their_node :: "event list \<Rightarrow> bool" where
  "stops_name_their_node tr = list_all stop_names_node tr"

section \<open>A simulated cluster\<close>

text \<open>
  A test double for the collaborators, used for the concrete scenarios: the cluster is a list
  of instances, every call succeeds and answers from the list, and the world has no state.
  A scenario changes single fields of the record.
\<close>

definition key :: "string \<Rightarrow> InstanceKey" where
  "key h = \<lparr>Hostname = h, Port = 3306\<rparr>"

definition coords :: "int \<Rightarrow> BinlogCoordinates" where
  "coords n = \<lparr>LogFile = ''mysql-bin.000001'', LogPos = n\<rparr>"

definition node :: "string \<Rightarrow> string \<Rightarrow> int \<Rightarrow> int \<Rightarrow> Instance" where
  "node h m self exec =
     \<lparr>Key = key h, MasterKey = (if m = [] then \<lparr>Hostname = [], Port = 0\<rparr> else key m),
      SelfBinlogCoordinates = coords self, ExecBinlogCoordinates = coords exec,
      IsLastCheckValid = True\<rparr>"

definition lookup :: "Instance list \<Rightarrow> InstanceKey \<Rightarrow> Instance \<times> bool" where
  "lookup nodes k =
     (case find (\<lambda>i. Key i = k) nodes of
        Some i \<Rightarrow> (i, True)
      | None \<Rightarrow> (\<lparr>Key = k, MasterKey = \<lparr>Hostname = [], Port = 0\<rparr>,
                  SelfBinlogCoordinates = coords 0, ExecBinlogCoordinates = coords 0,
                  IsLastCheckValid = False\<rparr>, False))"

fun show_arg :: "fmt_arg \<Rightarrow> string" where
  "show_arg (KeyArg k) = Hostname k"
| "show_arg (KeyPtrArg k) = CHR ''&'' # Hostname k"
| "show_arg (InstanceArg i) = CHR ''&'' # Hostname (Key i)"
| "show_arg (ErrorArg None) = ''<nil>''"
| "show_arg (ErrorArg (Some e)) = e"

definition sim :: "Instance list \<Rightarrow> unit services" where
  "sim nodes =
     \<lparr>ReadTopologyInstance =
        (\<lambda>k s. ((fst (lookup nodes k),
                  if snd (lookup nodes k) then None else Some ''unreachable''), s)),
      ReadInstance = (\<lambda>k s. (fst (lookup nodes k), snd (lookup nodes k), None)),
      ReadClusterInstances = (\<lambda>clusterName s. (nodes, None)),
      ReadSlaveInstances = (\<lambda>k s. (filter (\<lambda>i. MasterKey i = k) nodes, None)),
      BeginMaintenance = (\<lambda>k owner reason s. ((1, None), s)),
      EndMaintenance = (\<lambda>t s. s),
      StopSlave = (\<lambda>k s. ((fst (lookup nodes k), None), s)),
      StopSlaveNicely = (\<lambda>k s. ((fst (lookup nodes k), None), s)),
      StartSlave = (\<lambda>k s. ((fst (lookup nodes k), None), s)),
      StartSlaveUntilMasterCoordinates = (\<lambda>k until s. ((fst (lookup nodes k), None), s)),
      ChangeMasterTo = (\<lambda>k mk at s. ((fst (lookup nodes k), None), s)),
      ResetSlave = (\<lambda>k s. ((fst (lookup nodes k), None), s)),
      SetReadOnly = (\<lambda>k readOnly s. ((fst (lookup nodes k), None), s)),
      AuditOperation = (\<lambda>auditType k message s. s),
      GetLastPseudoGTIDEntryInInstance = (\<lambda>i s. ((coords 500, ''PG-17'', None), s)),
      SearchPseudoGTIDEntryInInstance = (\<lambda>i text s. ((coords 9000, None), s)),
      GetNextBinlogCoordinatesToMatch = (\<lambda>i ic other oc s. ((coords 9400, None), s)),
      IsSlave = (\<lambda>i. Hostname (MasterKey i) \<noteq> []),
      SlaveRunning = (\<lambda>i. Hostname (MasterKey i) \<noteq> []),
      SQLThreadUpToDate = (\<lambda>i. True),
      CanMove = (\<lambda>i. (True, None)),
      CanMoveAsCoMaster = (\<lambda>i. (True, None)),
      CanMoveViaMatch = (\<lambda>i. (True, None)),
      CanReplicateFrom = (\<lambda>i other. (True, None)),
      DisplayString = (\<lambda>k. Hostname k),
      Sprintf = (\<lambda>format args. format @ concat (map (\<lambda>a. '' | '' @ show_arg a) args))\<rparr>"

section \<open>Reading the result of a run\<close>

definition transcript :: "'a \<times> 's run \<Rightarrow> event list" where
  "transcript r = snd (snd r)"

definition returned_error :: "(Instance \<times> error option) \<times> 's run \<Rightarrow> error option" where
  "returned_error r = snd (fst r)"

text \<open>The nodes that answered a \<^verbatim>\<open>StopSlave\<close> without error, with their answers.\<close>

fun successful_stop :: "event \<Rightarrow> (InstanceKey \<times> Instance) option" where
  "successful_stop (EStopSlave k i None) = Some (k, i)"
| "successful_stop _ = None"

definition successful_stops :: "event list \<Rightarrow> (InstanceKey \<times> Instance) list" where
  "successful_stops tr = List.map_filter successful_stop tr"

text \<open>The calls that move a replica: \<^verbatim>\<open>StartSlaveUntilMasterCoordinates\<close> and \<^verbatim>\<open>ChangeMasterTo\<close>.\<close>

definition repositioning :: "event list \<Rightarrow> event list" where
  "repositioning tr = filter (\<lambda>ev. is_StartSlaveUntil ev \<or> is_ChangeMasterTo ev) tr"

text \<open>
  The first call an operator issues after its gates is the request for its own lease on the
  target; \<open>own_lease_refused\<close> is the key of that request when it was refused.
\<close>

fun own_lease_refused :: "event list \<Rightarrow> InstanceKey option" where
  "own_lease_refused [] = None"
| "own_lease_refused (ev # tr) = refused_lease ev"

fun lease_or_StartSlave :: "event \<Rightarrow> bool" where
  "lease_or_StartSlave (EBeginMaintenance _ _ _ _ _) = True"
| "lease_or_StartSlave (EEndMaintenance _) = True"
| "lease_or_StartSlave (EStartSlave _ _ _) = True"
| "lease_or_StartSlave _ = False"

text \<open>
  What a run looks like after a refused lease: one lease was refused, the error names its key,
  and besides lease calls the transcript holds nothing but \<^verbatim>\<open>StartSlave\<close>.
\<close>

definition lease_refusal_outcome ::
  "'s services \<Rightarrow> (Instance \<times> error option) \<times> 's run \<Rightarrow> bool" where
  "lease_refusal_outcome c r =
     ((case refused_leases (transcript r) of
         [k] \<Rightarrow> returned_error r = Some (Sprintf c ''Cannot begin maintenance on %+v'' [KeyArg k])
       | _ \<Rightarrow> False)
      \<and> list_all lease_or_StartSlave (transcript r))"

text \<open>An eligibility verdict that, when it refuses, says why.\<close>

definition gives_reason :: "bool \<times> error option \<Rightarrow> bool" where
  "gives_reason verdict = (fst verdict \<or> snd verdict \<noteq> None)"

text \<open>
  A stage of an operator only appends to the transcript, and what it appends does not depend
  on what was recorded before.
\<close>

definition appends :: "('s run \<Rightarrow> 'a \<times> 's run) \<Rightarrow> bool" where
  "appends f \<longleftrightarrow>
     (\<forall>s tr0. f (s, tr0) = (case f (s, []) of (r, (s', new)) \<Rightarrow> (r, (s', tr0 @ new))))"

section \<open>Scenarios\<close>

text \<open>
  The clusters of the concrete runs. \<open>A \<rightarrow> B\<close> says that \<open>B\<close> replicates from \<open>A\<close>.
  \<^item> \<open>chain\<close>: \<open>G \<rightarrow> M \<rightarrow> T\<close>.
  \<^item> \<open>family\<close>: \<open>M \<rightarrow> T\<close> and \<open>M \<rightarrow> S\<close>, with \<open>T\<close> behind \<open>S\<close>; \<open>M\<close> has no master.
  \<^item> \<open>household\<close>: \<open>G \<rightarrow> M\<close>, \<open>M \<rightarrow> T\<close> and \<open>M \<rightarrow> S\<close>, with \<open>T\<close> ahead of \<open>S\<close>.
  \<^item> \<open>comasters\<close>: \<open>A \<rightarrow> B\<close> and \<open>B \<rightarrow> A\<close>.
  \<^item> \<open>orphans\<close>: \<open>T\<close>, \<open>S1\<close> and \<open>S2\<close> replicate from \<open>M\<close>, which is gone.
\<close>

definition chain :: "Instance list" where
  "chain = [node ''G'' [] 900 0, node ''M'' ''G'' 700 800, node ''T'' ''M'' 300 600]"

definition family :: "Instance list" where
  "family = [node ''M'' [] 500 0, node ''T'' ''M'' 150 100, node ''S'' ''M'' 200 120]"

definition household :: "Instance list" where
  "household = [node ''G'' [] 900 0, node ''M'' ''G'' 700 800,
                node ''T'' ''M'' 300 200, node ''S'' ''M'' 300 180]"

definition comasters :: "Instance list" where
  "comasters = [node ''A'' ''B'' 10 20, node ''B'' ''A'' 30 40]"

definition orphans :: "Instance list" where
  "orphans = [node ''T'' ''M'' 300 200, node ''S1'' ''M'' 300 180, node ''S2'' ''M'' 300 200]"

text \<open>A lock service that refuses every lease.\<close>

definition refusing :: "Instance list \<Rightarrow> unit services" where
  "refusing nodes =
     (sim nodes)\<lparr>BeginMaintenance := (\<lambda>k owner reason s. ((0, Some ''in maintenance''), s))\<rparr>"

text \<open>A lock service that refuses the lease on one node and grants every other lease.\<close>

definition refusing_only :: "InstanceKey \<Rightarrow> Instance list \<Rightarrow> unit services" where
  "refusing_only busy nodes =
     (sim nodes)\<lparr>BeginMaintenance :=
        (\<lambda>k owner reason s.
           ((if k = busy then (0, Some ''in maintenance'') else (1, None)), s))\<rparr>"

text \<open>A cluster whose instances are not eligible for a move by matching.\<close>

definition unmatchable :: "Instance list \<Rightarrow> unit services" where
  "unmatchable nodes =
     (sim nodes)\<lparr>CanMoveViaMatch := (\<lambda>i. (False, Some ''not eligible for matching''))\<rparr>"

text \<open>A cluster whose binary logs hold no pseudo-GTID marker.\<close>

definition markerless :: "Instance list \<Rightarrow> unit services" where
  "markerless nodes =
     (sim nodes)\<lparr>GetLastPseudoGTIDEntryInInstance :=
        (\<lambda>i s. ((coords 0, [], Some ''no pseudo-GTID entry''), s))\<rparr>"

text \<open>A driver that cannot switch an instance to writable.\<close>

definition stuck_read_only :: "Instance list \<Rightarrow> unit services" where
  "stuck_read_only nodes =
     (sim nodes)\<lparr>SetReadOnly :=
        (\<lambda>k readOnly s. ((fst (lookup nodes k), Some ''cannot set read_only''), s))\<rparr>"

text \<open>The nodes a run stopped, and the nodes on which it attempted a start.\<close>

fun stopped_key :: "event \<Rightarrow> InstanceKey option" where
  "stopped_key (EStopSlave k _ _) = Some k"
| "stopped_key (EStopSlaveNicely k _ _) = Some k"
| "stopped_key _ = None"

fun started_key :: "event \<Rightarrow> InstanceKey option" where
  "started_key (EStartSlave k _ _) = Some k"
| "started_key _ = None"

definition started_keys :: "event list \<Rightarrow> InstanceKey list" where
  "started_keys tr = List.map_filter started_key tr"

definition restarts_what_it_stopped :: "event list \<Rightarrow> bool" where
  "restarts_what_it_stopped tr =
     list_all (\<lambda>k. k \<in> set (List.map_filter started_key tr)) (List.map_filter stopped_key tr)"

section \<open>Stage lemmas\<close>

lemmas call_defs = logged_def logged_unit_def deferred_def call_ReadTopologyInstance_def
  call_BeginMaintenance_def call_EndMaintenance_def call_StopSlave_def call_StopSlaveNicely_def
  call_StartSlave_def call_StartSlaveUntilMasterCoordinates_def call_ChangeMasterTo_def
  call_ResetSlave_def call_SetReadOnly_def call_AuditOperation_def
  call_GetLastPseudoGTIDEntryInInstance_def call_SearchPseudoGTIDEntryInInstance_def
  call_GetNextBinlogCoordinatesToMatch_def GetInstanceMaster_def

lemmas run_defs = transcript_def returned_error_def

lemmas transcript_simps = refused_leases_def lease_keys_def matcher_failures_def
  successful_stops_def repositioning_def stops_name_their_node_def

lemma appendsI:
  assumes "\<And>s tr0 r s' new. f (s, []) = (r, (s', new)) \<Longrightarrow> f (s, tr0) = (r, (s', tr0 @ new))"
  shows "appends f"
  unfolding appends_def
proof (intro allI)
  fix s tr0
  obtain r s' new where e: "f (s, []) = (r, (s', new))"
    by (rule prod_cases3)
  from assms[OF e] e show "f (s, tr0) = (case f (s, []) of (r, (s', new)) \<Rightarrow> (r, (s', tr0 @ new)))"
    by simp
qed

lemma appendsD:
  assumes "appends f"
  shows "f (s, tr0) = (case f (s, []) of (r, (s', new)) \<Rightarrow> (r, (s', tr0 @ new)))"
  using assms unfolding appends_def by blast

lemma appends_Cons:
  assumes "appends f"
  shows "f (s, ev # tr0) = (case f (s, []) of (r, (s', new)) \<Rightarrow> (r, (s', ev # tr0 @ new)))"
  using appendsD[OF assms, of s "ev # tr0"] by simp

lemma appends_app:
  assumes "appends f"
  shows "f (s, tr0 @ ev # tr1) =
           (case f (s, []) of (r, (s', new)) \<Rightarrow> (r, (s', tr0 @ ev # tr1 @ new)))"
  using appendsD[OF assms, of s "tr0 @ ev # tr1"] by simp

lemma run_cases:
  obtains result err s' tr where "r = ((result, err), (s', tr))"
proof -
  have "r = ((fst (fst r), snd (fst r)), (fst (snd r), snd (snd r)))"
    by simp
  then show ?thesis by (rule that)
qed

lemma MoveUp_drive_appends: "appends (MoveUp_drive c ik instance master)"
  by (rule appendsI) (auto simp: MoveUp_drive_def call_defs split: prod.splits if_splits)

lemmas MoveUp_drive_prefix =
  appends_Cons[OF MoveUp_drive_appends] appends_app[OF MoveUp_drive_appends]

lemma MoveUp_drive_shape:
  assumes "MoveUp_drive c ik instance master (s, []) = ((i', m', err), (s', new))"
  shows "(\<exists>e. new = [EStopSlave (Key master) m' (Some e)] \<and> err = Some e)
       \<or> (\<exists>e. new = [EStopSlave (Key master) m' None, EStopSlave ik i' (Some e)] \<and> err = Some e)
       \<or> (\<exists>i1 e. new = [EStopSlave (Key master) m' None, EStopSlave ik i1 None,
              EStartSlaveUntilMasterCoordinates ik (SelfBinlogCoordinates m') i' (Some e)] \<and> err = Some e)
       \<or> (\<exists>i1 i2. new = [EStopSlave (Key master) m' None, EStopSlave ik i1 None,
              EStartSlaveUntilMasterCoordinates ik (SelfBinlogCoordinates m') i2 None,
              EChangeMasterTo ik (MasterKey m') (ExecBinlogCoordinates m') i' err])"
  using assms
  by (auto simp: MoveUp_drive_def call_defs split: prod.splits if_splits)

lemma MoveBelow_equalize_appends: "appends (MoveBelow_equalize c ik sk instance sibling)"
  by (rule appendsI) (auto simp: MoveBelow_equalize_def call_defs split: prod.splits if_splits)

lemmas MoveBelow_equalize_prefix =
  appends_Cons[OF MoveBelow_equalize_appends] appends_app[OF MoveBelow_equalize_appends]

lemma MoveBelow_equalize_shape:
  assumes "MoveBelow_equalize c ik sk instance sibling (s, []) = ((i', sib', err), (s', new))"
  shows "(SmallerThan (ExecBinlogCoordinates instance) (ExecBinlogCoordinates sibling) \<and> sib' = sibling \<and>
            new = [EStartSlaveUntilMasterCoordinates ik (ExecBinlogCoordinates sibling) i' err])
       \<or> (\<not> SmallerThan (ExecBinlogCoordinates instance) (ExecBinlogCoordinates sibling) \<and>
            SmallerThan (ExecBinlogCoordinates sibling) (ExecBinlogCoordinates instance) \<and> i' = instance \<and>
            new = [EStartSlaveUntilMasterCoordinates sk (ExecBinlogCoordinates instance) sib' err])
       \<or> (\<not> SmallerThan (ExecBinlogCoordinates instance) (ExecBinlogCoordinates sibling) \<and>
            \<not> SmallerThan (ExecBinlogCoordinates sibling) (ExecBinlogCoordinates instance) \<and>
            i' = instance \<and> sib' = sibling \<and> err = None \<and> new = [])"
  using assms
  by (auto simp: MoveBelow_equalize_def call_defs split: prod.splits if_splits)

lemma MoveBelow_drive_appends: "appends (MoveBelow_drive c ik sk instance sibling)"
  by (rule appendsI)
     (auto simp: MoveBelow_drive_def call_defs MoveBelow_equalize_prefix split: prod.splits if_splits)

lemmas MoveBelow_drive_prefix =
  appends_Cons[OF MoveBelow_drive_appends] appends_app[OF MoveBelow_drive_appends]

lemma MoveBelow_drive_shape:
  assumes "MoveBelow_drive c ik sk instance sibling (s, []) = ((i', sib', err), (s', new))"
  shows "(\<exists>e. new = [EStopSlave ik i' (Some e)] \<and> err = Some e)
       \<or> (\<exists>i1 e. new = [EStopSlave ik i1 None, EStopSlave sk sib' (Some e)] \<and> err = Some e)
       \<or> (\<exists>i1. SmallerThan (ExecBinlogCoordinates i1) (ExecBinlogCoordinates sib') \<and>
            ((\<exists>e. new = [EStopSlave ik i1 None, EStopSlave sk sib' None,
                 EStartSlaveUntilMasterCoordinates ik (ExecBinlogCoordinates sib') i' (Some e)] \<and> err = Some e)
           \<or> (\<exists>i2. new = [EStopSlave ik i1 None, EStopSlave sk sib' None,
                 EStartSlaveUntilMasterCoordinates ik (ExecBinlogCoordinates sib') i2 None,
                 EChangeMasterTo ik (Key sib') (SelfBinlogCoordinates sib') i' err])))
       \<or> (\<exists>i1 s1. \<not> SmallerThan (ExecBinlogCoordinates i1) (ExecBinlogCoordinates s1) \<and>
            SmallerThan (ExecBinlogCoordinates s1) (ExecBinlogCoordinates i1) \<and>
            ((\<exists>e. new = [EStopSlave ik i1 None, EStopSlave sk s1 None,
                 EStartSlaveUntilMasterCoordinates sk (ExecBinlogCoordinates i1) sib' (Some e)] \<and> err = Some e)
           \<or> new = [EStopSlave ik i1 None, EStopSlave sk s1 None,
                 EStartSlaveUntilMasterCoordinates sk (ExecBinlogCoordinates i1) sib' None,
                 EChangeMasterTo ik (Key sib') (SelfBinlogCoordinates sib') i' err]))
       \<or> (\<exists>i1. \<not> SmallerThan (ExecBinlogCoordinates i1) (ExecBinlogCoordinates sib') \<and>
            \<not> SmallerThan (ExecBinlogCoordinates sib') (ExecBinlogCoordinates i1) \<and>
            new = [EStopSlave ik i1 None, EStopSlave sk sib' None,
                 EChangeMasterTo ik (Key sib') (SelfBinlogCoordinates sib') i' err])"
  using assms
  apply (auto simp: MoveBelow_drive_def call_defs MoveBelow_equalize_prefix
      split: prod.splits if_splits dest!: MoveBelow_equalize_shape)
  by blast+

lemma ResetSlaveOperation_drive_appends: "appends (ResetSlaveOperation_drive c ik instance)"
  by (rule appendsI)
     (auto simp: ResetSlaveOperation_drive_def call_defs split: prod.splits if_splits)

lemmas ResetSlaveOperation_drive_prefix =
  appends_Cons[OF ResetSlaveOperation_drive_appends]
  appends_app[OF ResetSlaveOperation_drive_appends]

lemma ResetSlaveOperation_drive_shape:
  assumes "ResetSlaveOperation_drive c ik instance (s, []) = ((i', err), (s', new))"
  shows "(\<exists>e. new = [EStopSlave ik i' (Some e)] \<and> err = Some e)
       \<or> (\<exists>i1. new = [EStopSlave ik i1 None, EResetSlave ik i' err])
       \<or> new = [EResetSlave ik i' err]"
  using assms
  by (auto simp: ResetSlaveOperation_drive_def call_defs split: prod.splits if_splits)

lemma MatchBelow_drive_appends: "appends (MatchBelow_drive c ik ok i other)"
  by (rule appendsI) (auto simp: MatchBelow_drive_def call_defs split: prod.splits if_splits)

lemmas MatchBelow_drive_prefix =
  appends_Cons[OF MatchBelow_drive_appends] appends_app[OF MatchBelow_drive_appends]

lemma MatchBelow_drive_shape:
  assumes "MatchBelow_drive c ik ok i other (s, []) = ((i', err), (s', new))"
  shows "(\<exists>e. new = [EStopSlave ik i' (Some e)] \<and> err = Some e)
       \<or> (\<exists>co tx e. new = [EStopSlave ik i' None, EGetLastPseudoGTIDEntryInInstance i' co tx (Some e)] \<and> err = Some e)
       \<or> (\<exists>co tx co' e. new = [EStopSlave ik i' None, EGetLastPseudoGTIDEntryInInstance i' co tx None,
              ESearchPseudoGTIDEntryInInstance other tx co' (Some e)] \<and> err = Some e)
       \<or> (\<exists>co tx co' nx e. new = [EStopSlave ik i' None, EGetLastPseudoGTIDEntryInInstance i' co tx None,
              ESearchPseudoGTIDEntryInInstance other tx co' None,
              EGetNextBinlogCoordinatesToMatch i' co other co' nx (Some e)] \<and> err = Some e)
       \<or> (\<exists>i1 co tx co' nx. new = [EStopSlave ik i1 None, EGetLastPseudoGTIDEntryInInstance i1 co tx None,
              ESearchPseudoGTIDEntryInInstance other tx co' None,
              EGetNextBinlogCoordinatesToMatch i1 co other co' nx None,
              EChangeMasterTo ik ok nx i' err])"
  using assms
  by (auto simp: MatchBelow_drive_def call_defs split: prod.splits if_splits)

lemma MatchBelow_other_maintenance_appends:
  "appends (MatchBelow_other_maintenance c ik ok requireOtherMaintenance i other)"
proof (rule appendsI)
  fix s tr0 r s' new
  assume "MatchBelow_other_maintenance c ik ok requireOtherMaintenance i other (s, []) = (r, (s', new))"
  then show "MatchBelow_other_maintenance c ik ok requireOtherMaintenance i other (s, tr0)
               = (r, (s', tr0 @ new))"
    by (auto simp: MatchBelow_other_maintenance_def MatchBelow_Cleanup_def call_defs
          MatchBelow_drive_prefix appendsD[OF MatchBelow_drive_appends, where ?tr0.0 = tr0]
        split: prod.splits if_splits)
qed

lemmas MatchBelow_other_maintenance_prefix =
  appends_Cons[OF MatchBelow_other_maintenance_appends]
  appends_app[OF MatchBelow_other_maintenance_appends]

lemma MatchBelow_maintenance_appends:
  "appends (MatchBelow_maintenance c ik ok requireInstanceMaintenance requireOtherMaintenance i other)"
proof (rule appendsI)
  fix s tr0 r s' new
  assume "MatchBelow_maintenance c ik ok requireInstanceMaintenance requireOtherMaintenance i other
            (s, []) = (r, (s', new))"
  then show "MatchBelow_maintenance c ik ok requireInstanceMaintenance requireOtherMaintenance i other
               (s, tr0) = (r, (s', tr0 @ new))"
    by (auto simp: MatchBelow_maintenance_def MatchBelow_Cleanup_def call_defs
          MatchBelow_other_maintenance_prefix
          appendsD[OF MatchBelow_other_maintenance_appends, where ?tr0.0 = tr0]
        split: prod.splits if_splits)
qed

lemma MatchBelow_appends:
  "appends (MatchBelow c ik ok requireInstanceMaintenance requireOtherMaintenance)"
proof (rule appendsI)
  fix s tr0 r s' new
  assume "MatchBelow c ik ok requireInstanceMaintenance requireOtherMaintenance (s, []) = (r, (s', new))"
  then show "MatchBelow c ik ok requireInstanceMaintenance requireOtherMaintenance (s, tr0)
               = (r, (s', tr0 @ new))"
    by (auto simp: MatchBelow_def call_defs
          appendsD[OF MatchBelow_maintenance_appends, where ?tr0.0 = tr0]
        split: prod.splits if_splits)
qed

lemma enslaveSiblings_appends: "appends (enslaveSiblings c ik siblings)"
proof (induction siblings)
  case Nil
  show ?case by (rule appendsI) simp
next
  case (Cons sibling siblings)
  show ?case
  proof (rule appendsI)
    fix s tr0 r s' new
    assume run: "enslaveSiblings c ik (sibling # siblings) (s, []) = (r, (s', new))"
    show "enslaveSiblings c ik (sibling # siblings) (s, tr0) = (r, (s', tr0 @ new))"
    proof (cases "SQLThreadUpToDate c sibling \<and> Key sibling \<noteq> ik")
      case False
      with run appendsD[OF Cons.IH, of s tr0] show ?thesis by auto
    next
      case True
      obtain r1 s1 new1 where m: "MatchBelow c (Key sibling) ik True False (s, []) = (r1, (s1, new1))"
        by (rule prod_cases3)
      with appendsD[OF MatchBelow_appends, of c "Key sibling" ik True False s tr0]
      have m': "MatchBelow c (Key sibling) ik True False (s, tr0) = (r1, (s1, tr0 @ new1))"
        by simp
      from run True m have "enslaveSiblings c ik siblings (s1, new1) = (r, (s', new))"
        by simp
      with appendsD[OF Cons.IH, of s1 new1]
      obtain new2 where e2: "enslaveSiblings c ik siblings (s1, []) = (r, (s', new2))"
        and n: "new = new1 @ new2"
        by (auto split: prod.splits)
      from e2 appendsD[OF Cons.IH, of s1 "tr0 @ new1"]
      have "enslaveSiblings c ik siblings (s1, tr0 @ new1) = (r, (s', tr0 @ new1 @ new2))"
        by simp
      with True m' n show ?thesis by simp
    qed
  qed
qed

lemma enslaveSiblings_returns_nil: "fst (enslaveSiblings c ik siblings \<sigma>) = None"
  by (induction siblings arbitrary: \<sigma>) auto

lemmas MatchBelow_prefix = appends_Cons[OF MatchBelow_appends] appends_app[OF MatchBelow_appends]

lemmas enslaveSiblings_prefix =
  appends_Cons[OF enslaveSiblings_appends] appends_app[OF enslaveSiblings_appends]

lemma MakeLocalMaster_drive_appends:
  "appends (MakeLocalMaster_drive c ik instance grandparentInstance siblings)"
proof (rule appendsI)
  fix s tr0 r s' new
  assume "MakeLocalMaster_drive c ik instance grandparentInstance siblings (s, []) = (r, (s', new))"
  then show "MakeLocalMaster_drive c ik instance grandparentInstance siblings (s, tr0)
               = (r, (s', tr0 @ new))"
    by (auto simp: MakeLocalMaster_drive_def call_defs MatchBelow_prefix enslaveSiblings_prefix
        split: prod.splits if_splits)
qed

lemmas MakeLocalMaster_drive_prefix =
  appends_Cons[OF MakeLocalMaster_drive_appends] appends_app[OF MakeLocalMaster_drive_appends]

section \<open>The runs of each operator\<close>

text \<open>
  A run of an operator from an empty transcript either returned at a gate and issued no call,
  or went on to request its leases. From there a lease was refused, or the leases were
  granted and the driver steps ran, followed by \<^verbatim>\<open>Cleanup\<close>.
\<close>

lemma MoveUp_gates:
  assumes "MoveUp c ik (s, []) = ((result, err), (s', tr))"
    and "ReadTopologyInstance c ik s = ((instance, e0), s0)"
    and "ReadTopologyInstance c (MasterKey instance) s0 = ((master, e1), s1)"
  shows "tr = [] \<or> MoveUp_maintenance c ik instance master (s1, []) = ((result, err), (s', tr))"
  using assms
  by (auto simp: MoveUp_def call_defs split: prod.splits if_splits)

lemma MoveUp_maintenance_cases:
  assumes "MoveUp_maintenance c ik instance master (s, []) = ((result, err), (s', tr))"
  obtains
    (refused_target) t e i1 e1 i2 e2 where
      "tr = [EBeginMaintenance ik ''orchestrator'' ''move up'' t (Some e),
             EStartSlave ik i1 e1, EStartSlave (Key master) i2 e2]"
      "err = Some (Sprintf c ''Cannot begin maintenance on %+v'' [KeyArg ik])"
  | (refused_master) t1 t2 e i1 e1 i2 e2 where
      "tr = [EBeginMaintenance ik ''orchestrator'' ''move up'' t1 None,
             EBeginMaintenance (Key master) ''orchestrator''
               (Sprintf c ''child %+v moves up'' [KeyArg ik]) t2 (Some e),
             EStartSlave ik i1 e1, EStartSlave (Key master) i2 e2, EEndMaintenance t1]"
      "err = Some (Sprintf c ''Cannot begin maintenance on %+v'' [KeyArg (Key master)])"
  | (drive) t1 t2 s2 i' m' sd new i4 e4 m5 e5 where
      "MoveUp_drive c ik instance master (s2, []) = ((i', m', err), (sd, new))"
      "tr = [EBeginMaintenance ik ''orchestrator'' ''move up'' t1 None,
             EBeginMaintenance (Key master) ''orchestrator''
               (Sprintf c ''child %+v moves up'' [KeyArg ik]) t2 None]
            @ new @ [EStartSlave ik i4 e4, EStartSlave (Key m') m5 e5]
            @ (if err = None then
                 [EAuditOperation ''move-up'' ik
                    (Sprintf c ''moved up %+v. Previous master: %+v''
                       [KeyArg ik, KeyArg (Key m5)])]
               else [])
            @ [EEndMaintenance t2, EEndMaintenance t1]"
  using assms
  by (auto simp: MoveUp_maintenance_def MoveUp_Cleanup_def call_defs MoveUp_drive_prefix
      split: prod.splits if_splits)

lemma MoveUp_success_run:
  assumes run: "MoveUp c ik (s, []) = ((result, None), (s', tr))"
    and leased: "list_ex is_BeginMaintenance tr"
    and named: "stops_name_their_node tr"
    and p1: "ReadTopologyInstance c ik s = ((instance, e0), s0)"
    and p2: "ReadTopologyInstance c (MasterKey instance) s0 = ((master, e1), s1)"
  shows "\<exists>t1 t2 why upstream i1 i2 i3 i4 e4 m5 e5.
     tr = [EBeginMaintenance ik ''orchestrator'' ''move up'' t1 None,
           EBeginMaintenance (Key master) ''orchestrator'' why t2 None,
           EStopSlave (Key master) upstream None,
           EStopSlave ik i1 None,
           EStartSlaveUntilMasterCoordinates ik (SelfBinlogCoordinates upstream) i2 None,
           EChangeMasterTo ik (MasterKey upstream) (ExecBinlogCoordinates upstream) i3 None,
           EStartSlave ik i4 e4,
           EStartSlave (Key master) m5 e5,
           EAuditOperation ''move-up'' ik
             (Sprintf c ''moved up %+v. Previous master: %+v'' [KeyArg ik, KeyArg (Key m5)]),
           EEndMaintenance t2,
           EEndMaintenance t1]"
proof -
  from MoveUp_gates[OF run p1 p2] leased
  have "MoveUp_maintenance c ik instance master (s1, []) = ((result, None), (s', tr))"
    by auto
  then show ?thesis
  proof (cases rule: MoveUp_maintenance_cases)
    case (drive t1 t2 s2 i' m' sd new i4 e4 m5 e5)
    from MoveUp_drive_shape[OF drive(1)] drive(2) named show ?thesis
      by (auto simp: stops_name_their_node_def)
  qed simp_all
qed

lemma MoveBelow_gates:
  assumes "MoveBelow c ik sk (s, []) = ((result, err), (s', tr))"
  obtains (gate) "tr = []"
  | (leases) target sibling s2 where
      "MoveBelow_maintenance c ik sk target sibling (s2, []) = ((result, err), (s', tr))"
  using assms
  by (auto simp: MoveBelow_def call_defs split: prod.splits if_splits)

lemma MoveBelow_maintenance_cases:
  assumes "MoveBelow_maintenance c ik sk instance sibling (s, []) = ((result, err), (s', tr))"
  obtains
    (refused_target) t e i1 e1 i2 e2 where
      "tr = [EBeginMaintenance ik ''orchestrator'' (Sprintf c ''move below %+v'' [KeyArg sk]) t (Some e),
             EStartSlave ik i1 e1, EStartSlave sk i2 e2]"
      "err = Some (Sprintf c ''Cannot begin maintenance on %+v'' [KeyArg ik])"
  | (refused_sibling) t1 t2 e i1 e1 i2 e2 where
      "tr = [EBeginMaintenance ik ''orchestrator'' (Sprintf c ''move below %+v'' [KeyArg sk]) t1 None,
             EBeginMaintenance sk ''orchestrator''
               (Sprintf c ''%+v moves below this'' [KeyArg ik]) t2 (Some e),
             EStartSlave ik i1 e1, EStartSlave sk i2 e2, EEndMaintenance t1]"
      "err = Some (Sprintf c ''Cannot begin maintenance on %+v'' [KeyArg sk])"
  | (drive) t1 t2 s2 i' sib' sd new i4 e4 i5 e5 where
      "MoveBelow_drive c ik sk instance sibling (s2, []) = ((i', sib', err), (sd, new))"
      "tr = [EBeginMaintenance ik ''orchestrator'' (Sprintf c ''move below %+v'' [KeyArg sk]) t1 None,
             EBeginMaintenance sk ''orchestrator''
               (Sprintf c ''%+v moves below this'' [KeyArg ik]) t2 None]
            @ new @ [EStartSlave ik i4 e4, EStartSlave sk i5 e5]
            @ (if err = None then
                 [EAuditOperation ''move-below'' ik
                    (Sprintf c ''moved %+v below %+v'' [KeyArg ik, KeyArg sk])]
               else [])
            @ [EEndMaintenance t2, EEndMaintenance t1]"
  using assms
  by (auto simp: MoveBelow_maintenance_def MoveBelow_Cleanup_def call_defs MoveBelow_drive_prefix
      split: prod.splits if_splits)

lemma MakeCoMaster_gates:
  assumes "MakeCoMaster c ik (s, []) = ((result, err), (s', tr))"
    and "ReadTopologyInstance c ik s = ((instance, e0), s0)"
    and "ReadTopologyInstance c (MasterKey instance) s0 = ((master, e1), s1)"
  shows "tr = [] \<or> MakeCoMaster_maintenance c ik instance master (s1, []) = ((result, err), (s', tr))"
  using assms
  by (auto simp: MakeCoMaster_def call_defs split: prod.splits if_splits)

lemma MakeCoMaster_maintenance_cases:
  assumes "MakeCoMaster_maintenance c ik instance master (s, []) = ((result, err), (s', tr))"
  obtains
    (refused_target) t e i2 e2 where
      "tr = [EBeginMaintenance ik ''orchestrator''
               (Sprintf c ''make co-master of %+v'' [KeyArg (Key master)]) t (Some e),
             EStartSlave (Key master) i2 e2]"
      "err = Some (Sprintf c ''Cannot begin maintenance on %+v'' [KeyArg ik])"
  | (refused_master) t1 t2 e i2 e2 where
      "tr = [EBeginMaintenance ik ''orchestrator''
               (Sprintf c ''make co-master of %+v'' [KeyArg (Key master)]) t1 None,
             EBeginMaintenance (Key master) ''orchestrator''
               (Sprintf c ''%+v turns into co-master of this'' [KeyArg ik]) t2 (Some e),
             EStartSlave (Key master) i2 e2, EEndMaintenance t1]"
      "err = Some (Sprintf c ''Cannot begin maintenance on %+v'' [KeyArg (Key master)])"
  | (drive) t1 t2 m' m5 e5 where
      "tr = [EBeginMaintenance ik ''orchestrator''
               (Sprintf c ''make co-master of %+v'' [KeyArg (Key master)]) t1 None,
             EBeginMaintenance (Key master) ''orchestrator''
               (Sprintf c ''%+v turns into co-master of this'' [KeyArg ik]) t2 None,
             EChangeMasterTo (Key master) ik (SelfBinlogCoordinates instance) m' err,
             EStartSlave (Key m') m5 e5]
            @ (if err = None then
                 [EAuditOperation ''make-co-master'' ik
                    (Sprintf c ''%+v made co-master of %+v'' [KeyArg ik, KeyArg (Key m5)])]
               else [])
            @ [EEndMaintenance t2, EEndMaintenance t1]"
  using assms
  by (auto simp: MakeCoMaster_maintenance_def MakeCoMaster_Cleanup_def call_defs
      split: prod.splits if_splits)

lemma ResetSlaveOperation_cases:
  assumes "ResetSlaveOperation c ik (s, []) = ((result, err), (s', tr))"
  obtains (gate) "tr = []"
  | (refused) t e i1 e1 where
      "tr = [EBeginMaintenance ik ''orchestrator'' ''reset slave'' t (Some e), EStartSlave ik i1 e1]"
      "err = Some (Sprintf c ''Cannot begin maintenance on %+v'' [KeyArg ik])"
  | (drive) t1 target s2 i' sd new i4 e4 where
      "ResetSlaveOperation_drive c ik target (s2, []) = ((i', err), (sd, new))"
      "tr = [EBeginMaintenance ik ''orchestrator'' ''reset slave'' t1 None]
            @ new @ [EStartSlave ik i4 e4]
            @ (if err = None then
                 [EAuditOperation ''reset slave'' ik
                    (Sprintf c ''%+v replication reset'' [KeyArg ik])]
               else [])
            @ [EEndMaintenance t1]"
  using assms
  by (auto simp: ResetSlaveOperation_def ResetSlaveOperation_Cleanup_def call_defs
        ResetSlaveOperation_drive_prefix
      split: prod.splits if_splits)

lemma MatchBelow_gates:
  assumes "MatchBelow c ik ok requireInstanceMaintenance requireOtherMaintenance (s, [])
             = ((result, err), (s', tr))"
  obtains (gate) "tr = []"
  | (leases) target otherInstance s2 where
      "MatchBelow_maintenance c ik ok requireInstanceMaintenance requireOtherMaintenance
         target otherInstance (s2, []) = ((result, err), (s', tr))"
  using assms
  by (auto simp: MatchBelow_def call_defs split: prod.splits if_splits)

lemma MatchBelow_other_maintenance_cases:
  assumes "MatchBelow_other_maintenance c ik ok requireOtherMaintenance instance otherInstance (s, [])
             = ((result, err), (s', tr))"
  obtains
    (refused_other) t e i1 e1 where
      "tr = [EBeginMaintenance ok ''orchestrator''
               (Sprintf c ''%+v matches below this'' [KeyArg ik]) t (Some e),
             EStartSlave ik i1 e1]"
      "err = Some (Sprintf c ''Cannot begin maintenance on %+v'' [KeyArg ok])"
  | (drive) t2 s2 i' sd new i4 e4 where
      "MatchBelow_drive c ik ok instance otherInstance (s2, []) = ((i', err), (sd, new))"
      "tr = (if requireOtherMaintenance then
               [EBeginMaintenance ok ''orchestrator''
                  (Sprintf c ''%+v matches below this'' [KeyArg ik]) t2 None]
             else [])
            @ new @ [EStartSlave ik i4 e4]
            @ (if err = None then
                 [EAuditOperation ''match-below'' ik
                    (Sprintf c ''matched %+v below %+v'' [KeyArg ik, KeyArg ok])]
               else [])
            @ (if requireOtherMaintenance then [EEndMaintenance t2] else [])"
  using assms
  by (auto simp: MatchBelow_other_maintenance_def MatchBelow_Cleanup_def call_defs
        MatchBelow_drive_prefix
      split: prod.splits if_splits)

lemma MatchBelow_maintenance_cases:
  assumes "MatchBelow_maintenance c ik ok requireInstanceMaintenance requireOtherMaintenance
             instance otherInstance (s, []) = ((result, err), (s', tr))"
  obtains
    (refused_target) t e i1 e1 where
      "tr = [EBeginMaintenance ik ''orchestrator''
               (Sprintf c ''match below %+v'' [KeyArg ok]) t (Some e),
             EStartSlave ik i1 e1]"
      "err = Some (Sprintf c ''Cannot begin maintenance on %+v'' [KeyArg ik])"
  | (granted) t1 s2 sd new where
      "MatchBelow_other_maintenance c ik ok requireOtherMaintenance instance otherInstance (s2, [])
         = ((result, err), (sd, new))"
      "tr = (if requireInstanceMaintenance then
               [EBeginMaintenance ik ''orchestrator''
                  (Sprintf c ''match below %+v'' [KeyArg ok]) t1 None]
             else [])
            @ new
            @ (if requireInstanceMaintenance then [EEndMaintenance t1] else [])"
  using assms
  by (auto simp: MatchBelow_maintenance_def MatchBelow_Cleanup_def call_defs
        MatchBelow_other_maintenance_prefix
      split: prod.splits if_splits)

lemma enslaveSiblings_nil:
  "enslaveSiblings c ik siblings \<sigma> = (e, \<sigma>') \<Longrightarrow> e = None"
  using enslaveSiblings_returns_nil[of c ik siblings \<sigma>] by simp

lemma MakeMaster_gates:
  assumes "MakeMaster c ik (s, []) = ((result, err), (s', tr))"
  obtains (gate) "tr = []"
  | (leases) target siblings s2 where
      "MakeMaster_maintenance c ik target siblings (s2, []) = ((result, err), (s', tr))"
  using assms
  by (auto simp: MakeMaster_def call_defs split: prod.splits if_splits option.splits)

lemma MakeMaster_maintenance_cases:
  assumes "MakeMaster_maintenance c ik target siblings (s, []) = ((result, err), (s', tr))"
  obtains
    (refused) t e where
      "tr = [EBeginMaintenance ik ''orchestrator''
               (Sprintf c ''siblings match below this'' [KeyArg ik]) t (Some e)]"
      "err = Some (Sprintf c ''Cannot begin maintenance on %+v'' [KeyArg ik])"
  | (drive) t1 new i e where
      "err = None"
      "tr = EBeginMaintenance ik ''orchestrator''
               (Sprintf c ''siblings match below this'' [KeyArg ik]) t1 None
            # new
            @ [ESetReadOnly ik False i e,
               EAuditOperation ''make-master'' ik (Sprintf c ''made master of %+v'' [KeyArg ik]),
               EEndMaintenance t1]"
  using assms
  by (auto simp: MakeMaster_maintenance_def MakeMaster_Cleanup_def MakeMaster_drive_def call_defs
        enslaveSiblings_prefix
      split: prod.splits if_splits dest: enslaveSiblings_nil)

lemma MakeLocalMaster_gates:
  assumes "MakeLocalMaster c ik (s, []) = ((result, err), (s', tr))"
  obtains (gate) "tr = []"
  | (leases) target grandparentInstance siblings s2 where
      "MakeLocalMaster_maintenance c ik target grandparentInstance siblings (s2, [])
         = ((result, err), (s', tr))"
  using assms
  by (auto simp: MakeLocalMaster_def call_defs split: prod.splits if_splits option.splits)

lemma MakeLocalMaster_maintenance_cases:
  assumes "MakeLocalMaster_maintenance c ik target grandparentInstance siblings (s, [])
             = ((result, err), (s', tr))"
  obtains
    (refused) t e where
      "tr = [EBeginMaintenance ik ''orchestrator''
               (Sprintf c ''siblings match below this'' [KeyArg ik]) t (Some e)]"
      "err = Some (Sprintf c ''Cannot begin maintenance on %+v'' [KeyArg ik])"
  | (drive) t1 rest where
      "tr = EBeginMaintenance ik ''orchestrator''
               (Sprintf c ''siblings match below this'' [KeyArg ik]) t1 None
            # rest"
  using assms
  by (auto simp: MakeLocalMaster_maintenance_def MakeLocalMaster_Cleanup_def call_defs
        MakeLocalMaster_drive_prefix
      split: prod.splits if_splits)

section \<open>Concrete runs\<close>

lemmas operator_defs =
  MoveUp_def MoveUp_maintenance_def MoveUp_Cleanup_def MoveUp_drive_def
  MoveBelow_def MoveBelow_maintenance_def MoveBelow_Cleanup_def MoveBelow_drive_def
  MoveBelow_equalize_def
  MakeCoMaster_def MakeCoMaster_maintenance_def MakeCoMaster_Cleanup_def
  ResetSlaveOperation_def ResetSlaveOperation_Cleanup_def ResetSlaveOperation_drive_def
  MatchBelow_def MatchBelow_maintenance_def MatchBelow_other_maintenance_def
  MatchBelow_Cleanup_def MatchBelow_drive_def
  MakeMaster_def MakeMaster_maintenance_def MakeMaster_Cleanup_def MakeMaster_drive_def
  MakeLocalMaster_def MakeLocalMaster_maintenance_def MakeLocalMaster_Cleanup_def
  MakeLocalMaster_drive_def

lemmas scenario_defs =
  sim_def refusing_def refusing_only_def unmatchable_def markerless_def stuck_read_only_def
  lookup_def node_def key_def coords_def
  chain_def family_def household_def comasters_def orphans_def SmallerThan_def

section \<open>Restarting what was stopped\<close>

text \<open>
  The operators whose \<^verbatim>\<open>Cleanup\<close> block calls \<^verbatim>\<open>StartSlave\<close> attempt a start on every node they
  stopped, on every path. For \<^verbatim>\<open>MoveUp\<close> the start of the upstream uses the key of the instance
  that the stop returned, so the driver is taken to answer with the instance it was asked about.
\<close>

lemma MoveUp_restarts:
  assumes run: "MoveUp c ik (s, []) = ((result, err), (s', tr))"
    and named: "stops_name_their_node tr"
  shows "restarts_what_it_stopped tr"
proof -
  obtain target e0 s0 where p1: "ReadTopologyInstance c ik s = ((target, e0), s0)"
    by (metis prod.exhaust)
  obtain master e1 s1 where p2: "ReadTopologyInstance c (MasterKey target) s0 = ((master, e1), s1)"
    by (metis prod.exhaust)
  from MoveUp_gates[OF run p1 p2] show ?thesis
  proof
    assume "MoveUp_maintenance c ik target master (s1, []) = ((result, err), (s', tr))"
    then show ?thesis
    proof (cases rule: MoveUp_maintenance_cases)
      case (drive t1 t2 s2 i' m' sd new i4 e4 m5 e5)
      from MoveUp_drive_shape[OF drive(1)] drive(2) named show ?thesis
        by (auto simp: restarts_what_it_stopped_def transcript_simps)
    qed (simp_all add: restarts_what_it_stopped_def)
  qed (simp add: restarts_what_it_stopped_def)
qed

lemma MoveBelow_restarts:
  assumes run: "MoveBelow c ik sk (s, []) = ((result, err), (s', tr))"
  shows "restarts_what_it_stopped tr"
  using run
proof (cases rule: MoveBelow_gates)
  case (leases target sibling s2)
  then show ?thesis
  proof (cases rule: MoveBelow_maintenance_cases)
    case (drive t1 t2 s2 i' sib' sd new i4 e4 i5 e5)
    from MoveBelow_drive_shape[OF drive(1)] drive(2) show ?thesis
      by (auto simp: restarts_what_it_stopped_def)
  qed (simp_all add: restarts_what_it_stopped_def)
qed (simp add: restarts_what_it_stopped_def)

lemma ResetSlaveOperation_restarts:
  assumes run: "ResetSlaveOperation c ik (s, []) = ((result, err), (s', tr))"
  shows "restarts_what_it_stopped tr"
  using run
proof (cases rule: ResetSlaveOperation_cases)
  case (drive t1 target s2 i' sd new i4 e4)
  from ResetSlaveOperation_drive_shape[OF drive(1)] drive(2) show ?thesis
    by (auto simp: restarts_what_it_stopped_def)
qed (simp_all add: restarts_what_it_stopped_def)

lemma MatchBelow_restarts:
  assumes run: "MatchBelow c ik ok requireInstanceMaintenance requireOtherMaintenance (s, [])
                  = ((result, err), (s', tr))"
  shows "restarts_what_it_stopped tr"
  using run
proof (cases rule: MatchBelow_gates)
  case (leases target otherInstance s2)
  then show ?thesis
  proof (cases rule: MatchBelow_maintenance_cases)
    case (granted t1 s2 sd new)
    from granted(1) show ?thesis
    proof (cases rule: MatchBelow_other_maintenance_cases)
      case (refused_other t e i1 e1)
      with granted(2) show ?thesis
        by (simp add: restarts_what_it_stopped_def)
    next
      case (drive t2 s2 i' sd new')
      from MatchBelow_drive_shape[OF drive(1)] drive(2) granted(2) show ?thesis
        by (auto simp: restarts_what_it_stopped_def)
    qed
  qed (simp_all add: restarts_what_it_stopped_def)
qed (simp add: restarts_what_it_stopped_def)

section \<open>MakeLocalMaster: a target that stays stopped\<close>

text \<open>
  C1. The claim is that every node an operator stopped has had a start attempted by the time
  the operator returns. \<^verbatim>\<open>MakeLocalMaster\<close> does not keep it: its \<^verbatim>\<open>Cleanup\<close> block starts
  nothing, so the only start of the target is the one inside the \<^verbatim>\<open>MatchBelow\<close> it calls. In
  the chain \<open>G \<rightarrow> M \<rightarrow> T\<close> with a target that is not eligible for matching, \<^verbatim>\<open>MakeLocalMaster\<close>
  on \<open>T\<close> takes its lease, stops \<open>T\<close> with \<^verbatim>\<open>StopSlaveNicely\<close>, has \<^verbatim>\<open>MatchBelow\<close> refuse at its
  gate, and returns that error: the stop is the only driver call of the run, and no start of
  \<open>T\<close> was attempted.
\<close>

theorem MakeLocalMaster_leaves_target_stopped:
  "returned_error (MakeLocalMaster (unmatchable chain) (key ''T'') ((), []))
     = Some ''not eligible for matching''
   \<and> filter is_driver_call (transcript (MakeLocalMaster (unmatchable chain) (key ''T'') ((), [])))
     = [EStopSlaveNicely (key ''T'') (node ''T'' ''M'' 300 600) None]
   \<and> \<not> list_ex is_StartSlave (transcript (MakeLocalMaster (unmatchable chain) (key ''T'') ((), [])))
   \<and> \<not> restarts_what_it_stopped
         (transcript (MakeLocalMaster (unmatchable chain) (key ''T'') ((), [])))"
  by (simp add: operator_defs call_defs scenario_defs run_defs restarts_what_it_stopped_def)

section \<open>MoveUp: the order of the driver calls\<close>

text \<open>
  C2. A run of \<^verbatim>\<open>MoveUp\<close> that requested its leases and returned no error issued exactly these
  calls, in this order: the lease on the target, the lease on the upstream, \<^verbatim>\<open>StopSlave\<close> on
  the upstream, \<^verbatim>\<open>StopSlave\<close> on the target, \<^verbatim>\<open>StartSlaveUntilMasterCoordinates\<close> on the target
  with the self coordinates of the upstream as the stop of the upstream returned them,
  \<^verbatim>\<open>ChangeMasterTo\<close> on the target with the master key and the executed coordinates from that
  same answer, then \<^verbatim>\<open>StartSlave\<close> on the target and on the upstream, the audit record, and
  the release of both leases. The upstream is the instance that the probe of the target's
  master key returned; the driver is taken to answer a stop with the instance it was asked
  about.
\<close>

theorem MoveUp_success_sequence:
  assumes "r = MoveUp c instanceKey (s, [])"
    and "returned_error r = None"
    and "list_ex is_BeginMaintenance (transcript r)"
    and "stops_name_their_node (transcript r)"
    and "ReadTopologyInstance c instanceKey s = ((instance, e0), s0)"
    and "ReadTopologyInstance c (MasterKey instance) s0 = ((master, e1), s1)"
  shows "\<exists>t1 t2 why upstream i1 i2 i3 i4 e4 m5 e5.
     transcript r =
          [EBeginMaintenance instanceKey ''orchestrator'' ''move up'' t1 None,
           EBeginMaintenance (Key master) ''orchestrator'' why t2 None,
           EStopSlave (Key master) upstream None,
           EStopSlave instanceKey i1 None,
           EStartSlaveUntilMasterCoordinates instanceKey (SelfBinlogCoordinates upstream) i2 None,
           EChangeMasterTo instanceKey (MasterKey upstream) (ExecBinlogCoordinates upstream) i3 None,
           EStartSlave instanceKey i4 e4,
           EStartSlave (Key master) m5 e5,
           EAuditOperation ''move-up'' instanceKey
             (Sprintf c ''moved up %+v. Previous master: %+v''
                [KeyArg instanceKey, KeyArg (Key m5)]),
           EEndMaintenance t2,
           EEndMaintenance t1]"
proof -
  obtain result err s' tr where run: "MoveUp c instanceKey (s, []) = ((result, err), (s', tr))"
    by (rule run_cases)
  with assms(1) have r: "r = ((result, err), (s', tr))"
    by simp
  with assms(2,3,4) have "err = None" "list_ex is_BeginMaintenance tr" "stops_name_their_node tr"
    by (simp_all add: run_defs)
  with MoveUp_success_run[OF _ _ _ assms(5,6), of result s' tr] run r show ?thesis
    by (simp add: run_defs)
qed

theorem MoveUp_success_sequence_witness:
  "returned_error (MoveUp (sim chain) (key ''T'') ((), [])) = None
   \<and> list_ex is_BeginMaintenance (transcript (MoveUp (sim chain) (key ''T'') ((), [])))
   \<and> stops_name_their_node (transcript (MoveUp (sim chain) (key ''T'') ((), [])))
   \<and> ReadTopologyInstance (sim chain) (key ''T'') () = ((node ''T'' ''M'' 300 600, None), ())
   \<and> ReadTopologyInstance (sim chain) (MasterKey (node ''T'' ''M'' 300 600)) ()
       = ((node ''M'' ''G'' 700 800, None), ())
   \<and> (\<exists>t1 t2 why upstream i1 i2 i3 i4 e4 m5 e5.
        transcript (MoveUp (sim chain) (key ''T'') ((), [])) =
          [EBeginMaintenance (key ''T'') ''orchestrator'' ''move up'' t1 None,
           EBeginMaintenance (Key (node ''M'' ''G'' 700 800)) ''orchestrator'' why t2 None,
           EStopSlave (Key (node ''M'' ''G'' 700 800)) upstream None,
           EStopSlave (key ''T'') i1 None,
           EStartSlaveUntilMasterCoordinates (key ''T'') (SelfBinlogCoordinates upstream) i2 None,
           EChangeMasterTo (key ''T'') (MasterKey upstream) (ExecBinlogCoordinates upstream) i3 None,
           EStartSlave (key ''T'') i4 e4,
           EStartSlave (Key (node ''M'' ''G'' 700 800)) m5 e5,
           EAuditOperation ''move-up'' (key ''T'')
             (Sprintf (sim chain) ''moved up %+v. Previous master: %+v''
                [KeyArg (key ''T''), KeyArg (Key m5)]),
           EEndMaintenance t2,
           EEndMaintenance t1])"
proof -
  let ?r = "MoveUp (sim chain) (key ''T'') ((), [])"
  have h1: "returned_error ?r = None"
    and h2: "list_ex is_BeginMaintenance (transcript ?r)"
    and h3: "stops_name_their_node (transcript ?r)"
    by (simp_all add: operator_defs call_defs scenario_defs run_defs transcript_simps)
  have p1: "ReadTopologyInstance (sim chain) (key ''T'') () = ((node ''T'' ''M'' 300 600, None), ())"
    and p2: "ReadTopologyInstance (sim chain) (MasterKey (node ''T'' ''M'' 300 600)) ()
               = ((node ''M'' ''G'' 700 800, None), ())"
    by (simp_all add: scenario_defs)
  note c = MoveUp_success_sequence[OF refl h1 h2 h3 p1 p2]
  from h1 h2 h3 p1 p2 c show ?thesis
    by (intro conjI)
qed

section \<open>A refused lease\<close>

lemma MoveUp_refused:
  assumes run: "MoveUp c ik (s, []) = ((result, err), (s', tr))"
    and p1: "ReadTopologyInstance c ik s = ((target, e0), s0)"
    and p2: "ReadTopologyInstance c (MasterKey target) s0 = ((master, e1), s1)"
    and refused: "refused_leases tr \<noteq> []"
  shows "lease_refusal_outcome c ((result, err), (s', tr)) \<and> started_keys tr = [ik, Key master]"
proof -
  from MoveUp_gates[OF run p1 p2] refused
  have "MoveUp_maintenance c ik target master (s1, []) = ((result, err), (s', tr))"
    by (auto simp: transcript_simps)
  then show ?thesis
  proof (cases rule: MoveUp_maintenance_cases)
    case (drive t1 t2 s2 i' m' sd new i4 e4 m5 e5)
    from MoveUp_drive_shape[OF drive(1)] drive(2) refused show ?thesis
      by (auto simp: transcript_simps)
  qed (simp_all add: lease_refusal_outcome_def run_defs transcript_simps started_keys_def)
qed

lemma MoveBelow_refused:
  assumes run: "MoveBelow c ik sk (s, []) = ((result, err), (s', tr))"
    and refused: "refused_leases tr \<noteq> []"
  shows "lease_refusal_outcome c ((result, err), (s', tr)) \<and> started_keys tr = [ik, sk]"
  using run
proof (cases rule: MoveBelow_gates)
  case gate
  with refused show ?thesis by (simp add: transcript_simps)
next
  case (leases target sibling s2)
  then show ?thesis
  proof (cases rule: MoveBelow_maintenance_cases)
    case (drive t1 t2 s2 i' sib' sd new i4 e4 i5 e5)
    from MoveBelow_drive_shape[OF drive(1)] drive(2) refused show ?thesis
      by (auto simp: transcript_simps)
  qed (simp_all add: lease_refusal_outcome_def run_defs transcript_simps started_keys_def)
qed

lemma MakeCoMaster_refused:
  assumes run: "MakeCoMaster c ik (s, []) = ((result, err), (s', tr))"
    and p1: "ReadTopologyInstance c ik s = ((target, e0), s0)"
    and p2: "ReadTopologyInstance c (MasterKey target) s0 = ((master, e1), s1)"
    and refused: "refused_leases tr \<noteq> []"
  shows "lease_refusal_outcome c ((result, err), (s', tr)) \<and> started_keys tr = [Key master]"
proof -
  from MakeCoMaster_gates[OF run p1 p2] refused
  have "MakeCoMaster_maintenance c ik target master (s1, []) = ((result, err), (s', tr))"
    by (auto simp: transcript_simps)
  then show ?thesis
  proof (cases rule: MakeCoMaster_maintenance_cases)
    case (drive t1 t2 m' m5 e5)
    with refused show ?thesis
      by (auto simp: transcript_simps split: if_splits)
  qed (simp_all add: lease_refusal_outcome_def run_defs transcript_simps started_keys_def)
qed

lemma ResetSlaveOperation_refused:
  assumes run: "ResetSlaveOperation c ik (s, []) = ((result, err), (s', tr))"
    and refused: "refused_leases tr \<noteq> []"
  shows "lease_refusal_outcome c ((result, err), (s', tr)) \<and> started_keys tr = [ik]"
  using run
proof (cases rule: ResetSlaveOperation_cases)
  case gate
  with refused show ?thesis by (simp add: transcript_simps)
next
  case (drive t1 target s2 i' sd new i4 e4)
  from ResetSlaveOperation_drive_shape[OF drive(1)] drive(2) refused show ?thesis
    by (auto simp: transcript_simps)
qed (simp_all add: lease_refusal_outcome_def run_defs transcript_simps started_keys_def)

lemma MatchBelow_refused:
  assumes run: "MatchBelow c ik ok requireInstanceMaintenance requireOtherMaintenance (s, [])
                  = ((result, err), (s', tr))"
    and refused: "refused_leases tr \<noteq> []"
  shows "lease_refusal_outcome c ((result, err), (s', tr)) \<and> started_keys tr = [ik]"
  using run
proof (cases rule: MatchBelow_gates)
  case gate
  with refused show ?thesis by (simp add: transcript_simps)
next
  case (leases target otherInstance s2)
  then show ?thesis
  proof (cases rule: MatchBelow_maintenance_cases)
    case (granted t1 s2 sd new)
    from granted(1) show ?thesis
    proof (cases rule: MatchBelow_other_maintenance_cases)
      case (refused_other t e i1 e1)
      with granted(2) show ?thesis
        by (simp add: lease_refusal_outcome_def run_defs transcript_simps started_keys_def)
    next
      case (drive t2 s2 i' sd new')
      from MatchBelow_drive_shape[OF drive(1)] drive(2) granted(2) refused show ?thesis
        by (auto simp: transcript_simps split: if_splits)
    qed
  qed (simp_all add: lease_refusal_outcome_def run_defs transcript_simps started_keys_def)
qed


lemma MakeMaster_refused:
  assumes run: "MakeMaster c ik (s, []) = ((result, err), (s', tr))"
    and refused: "own_lease_refused tr \<noteq> None"
  shows "lease_refusal_outcome c ((result, err), (s', tr)) \<and> \<not> list_ex is_driver_call tr"
  using run
proof (cases rule: MakeMaster_gates)
  case gate
  with refused show ?thesis by simp
next
  case (leases target siblings s2)
  then show ?thesis
  proof (cases rule: MakeMaster_maintenance_cases)
    case (drive t1 new i e)
    with refused show ?thesis by simp
  qed (simp_all add: lease_refusal_outcome_def run_defs transcript_simps)
qed

lemma MakeLocalMaster_refused:
  assumes run: "MakeLocalMaster c ik (s, []) = ((result, err), (s', tr))"
    and refused: "own_lease_refused tr \<noteq> None"
  shows "lease_refusal_outcome c ((result, err), (s', tr)) \<and> \<not> list_ex is_driver_call tr"
  using run
proof (cases rule: MakeLocalMaster_gates)
  case gate
  with refused show ?thesis by simp
next
  case (leases target grandparentInstance siblings s2)
  then show ?thesis
  proof (cases rule: MakeLocalMaster_maintenance_cases)
    case (drive t1 rest)
    with refused show ?thesis by simp
  qed (simp_all add: lease_refusal_outcome_def run_defs transcript_simps)
qed


text \<open>
  C3 (amended). When a lease that an operator requests for itself is refused, the operator
  returns the error that names the key of that lease, and besides lease calls its transcript
  holds nothing but the \<^verbatim>\<open>StartSlave\<close> calls of its \<^verbatim>\<open>Cleanup\<close> block: no \<^verbatim>\<open>StopSlave\<close>,
  \<^verbatim>\<open>StopSlaveNicely\<close>, \<^verbatim>\<open>StartSlaveUntilMasterCoordinates\<close>, \<^verbatim>\<open>ChangeMasterTo\<close>, \<^verbatim>\<open>ResetSlave\<close> or
  \<^verbatim>\<open>SetReadOnly\<close>, no matcher call and no audit record. Those \<^verbatim>\<open>StartSlave\<close> calls are issued,
  once each and in this order:
  \<^item> \<^verbatim>\<open>MoveUp\<close>: on the target, then on the probed upstream;
  \<^item> \<^verbatim>\<open>MoveBelow\<close>: on the target, then on the sibling;
  \<^item> \<^verbatim>\<open>MakeCoMaster\<close>: on the probed upstream;
  \<^item> \<^verbatim>\<open>ResetSlaveOperation\<close> and \<^verbatim>\<open>MatchBelow\<close>: on the target.

  These five operators call no other operator, so every lease in their transcript is their
  own. \<^verbatim>\<open>MakeMaster\<close> and \<^verbatim>\<open>MakeLocalMaster\<close> request their own lease as their first call (later
  leases belong to the \<^verbatim>\<open>MatchBelow\<close> runs they start); when it is refused they issue no
  driver call at all. The two hypotheses name the answers of the probes of the target and of
  its upstream, which \<^verbatim>\<open>MoveUp\<close> and \<^verbatim>\<open>MakeCoMaster\<close> read before they request a lease.
\<close>

theorem refused_lease_outcome:
  assumes p1: "ReadTopologyInstance c k s = ((target, e0), s0)"
    and p2: "ReadTopologyInstance c (MasterKey target) s0 = ((master, e1), s1)"
  shows
  "(refused_leases (transcript (MoveUp c k (s, []))) \<noteq> [] \<longrightarrow>
      lease_refusal_outcome c (MoveUp c k (s, [])) \<and>
      started_keys (transcript (MoveUp c k (s, []))) = [k, Key master])
 \<and> (refused_leases (transcript (MoveBelow c k k' (s, []))) \<noteq> [] \<longrightarrow>
      lease_refusal_outcome c (MoveBelow c k k' (s, [])) \<and>
      started_keys (transcript (MoveBelow c k k' (s, []))) = [k, k'])
 \<and> (refused_leases (transcript (MakeCoMaster c k (s, []))) \<noteq> [] \<longrightarrow>
      lease_refusal_outcome c (MakeCoMaster c k (s, [])) \<and>
      started_keys (transcript (MakeCoMaster c k (s, []))) = [Key master])
 \<and> (refused_leases (transcript (ResetSlaveOperation c k (s, []))) \<noteq> [] \<longrightarrow>
      lease_refusal_outcome c (ResetSlaveOperation c k (s, [])) \<and>
      started_keys (transcript (ResetSlaveOperation c k (s, []))) = [k])
 \<and> (refused_leases (transcript (MatchBelow c k k' lockTarget lockOther (s, []))) \<noteq> [] \<longrightarrow>
      lease_refusal_outcome c (MatchBelow c k k' lockTarget lockOther (s, [])) \<and>
      started_keys (transcript (MatchBelow c k k' lockTarget lockOther (s, []))) = [k])
 \<and> (own_lease_refused (transcript (MakeMaster c k (s, []))) \<noteq> None \<longrightarrow>
      lease_refusal_outcome c (MakeMaster c k (s, [])) \<and>
      \<not> list_ex is_driver_call (transcript (MakeMaster c k (s, []))))
 \<and> (own_lease_refused (transcript (MakeLocalMaster c k (s, []))) \<noteq> None \<longrightarrow>
      lease_refusal_outcome c (MakeLocalMaster c k (s, [])) \<and>
      \<not> list_ex is_driver_call (transcript (MakeLocalMaster c k (s, []))))"
  using MoveUp_refused[of c k s "fst (fst (MoveUp c k (s, [])))" "snd (fst (MoveUp c k (s, [])))"
          "fst (snd (MoveUp c k (s, [])))" "snd (snd (MoveUp c k (s, [])))", OF _ p1 p2]
        MoveBelow_refused[of c k k' s "fst (fst (MoveBelow c k k' (s, [])))"
          "snd (fst (MoveBelow c k k' (s, [])))" "fst (snd (MoveBelow c k k' (s, [])))"
          "snd (snd (MoveBelow c k k' (s, [])))"]
        MakeCoMaster_refused[of c k s "fst (fst (MakeCoMaster c k (s, [])))"
          "snd (fst (MakeCoMaster c k (s, [])))" "fst (snd (MakeCoMaster c k (s, [])))"
          "snd (snd (MakeCoMaster c k (s, [])))", OF _ p1 p2]
        ResetSlaveOperation_refused[of c k s "fst (fst (ResetSlaveOperation c k (s, [])))"
          "snd (fst (ResetSlaveOperation c k (s, [])))" "fst (snd (ResetSlaveOperation c k (s, [])))"
          "snd (snd (ResetSlaveOperation c k (s, [])))"]
        MatchBelow_refused[of c k k' lockTarget lockOther s
          "fst (fst (MatchBelow c k k' lockTarget lockOther (s, [])))"
          "snd (fst (MatchBelow c k k' lockTarget lockOther (s, [])))"
          "fst (snd (MatchBelow c k k' lockTarget lockOther (s, [])))"
          "snd (snd (MatchBelow c k k' lockTarget lockOther (s, [])))"]
        MakeMaster_refused[of c k s "fst (fst (MakeMaster c k (s, [])))"
          "snd (fst (MakeMaster c k (s, [])))" "fst (snd (MakeMaster c k (s, [])))"
          "snd (snd (MakeMaster c k (s, [])))"]
        MakeLocalMaster_refused[of c k s "fst (fst (MakeLocalMaster c k (s, [])))"
          "snd (fst (MakeLocalMaster c k (s, [])))" "fst (snd (MakeLocalMaster c k (s, [])))"
          "snd (snd (MakeLocalMaster c k (s, [])))"]
  by (simp add: transcript_def)

theorem refused_lease_outcome_witness:
  "ReadTopologyInstance (refusing household) (key ''T'') () = ((node ''T'' ''M'' 300 200, None), ())
   \<and> ReadTopologyInstance (refusing household) (MasterKey (node ''T'' ''M'' 300 200)) ()
       = ((node ''M'' ''G'' 700 800, None), ())
   \<and> ReadTopologyInstance (refusing family) (key ''T'') () = ((node ''T'' ''M'' 150 100, None), ())
   \<and> ReadTopologyInstance (refusing family) (MasterKey (node ''T'' ''M'' 150 100)) ()
       = ((node ''M'' [] 500 0, None), ())
   \<and> ReadTopologyInstance (refusing_only (key ''S'') household) (key ''T'') ()
       = ((node ''T'' ''M'' 300 200, None), ())
   \<and> ReadTopologyInstance (refusing_only (key ''S'') household)
         (MasterKey (node ''T'' ''M'' 300 200)) ()
       = ((node ''M'' ''G'' 700 800, None), ())
   \<and> (refused_leases (transcript (MoveUp (refusing household) (key ''T'') ((), []))) \<noteq> []
      \<and> lease_refusal_outcome (refusing household) (MoveUp (refusing household) (key ''T'') ((), []))
      \<and> started_keys (transcript (MoveUp (refusing household) (key ''T'') ((), [])))
          = [key ''T'', Key (node ''M'' ''G'' 700 800)])
   \<and> (refused_leases (transcript (MoveBelow (refusing household) (key ''T'') (key ''S'') ((), [])))
        \<noteq> []
      \<and> lease_refusal_outcome (refusing household)
          (MoveBelow (refusing household) (key ''T'') (key ''S'') ((), []))
      \<and> started_keys (transcript (MoveBelow (refusing household) (key ''T'') (key ''S'') ((), [])))
          = [key ''T'', key ''S''])
   \<and> (refused_leases (transcript (MakeCoMaster (refusing family) (key ''T'') ((), []))) \<noteq> []
      \<and> lease_refusal_outcome (refusing family)
          (MakeCoMaster (refusing family) (key ''T'') ((), []))
      \<and> started_keys (transcript (MakeCoMaster (refusing family) (key ''T'') ((), [])))
          = [Key (node ''M'' [] 500 0)])
   \<and> (refused_leases (transcript (ResetSlaveOperation (refusing household) (key ''T'') ((), [])))
        \<noteq> []
      \<and> lease_refusal_outcome (refusing household)
          (ResetSlaveOperation (refusing household) (key ''T'') ((), []))
      \<and> started_keys (transcript (ResetSlaveOperation (refusing household) (key ''T'') ((), [])))
          = [key ''T''])
   \<and> (refused_leases
        (transcript (MatchBelow (refusing household) (key ''T'') (key ''S'') True False ((), [])))
        \<noteq> []
      \<and> lease_refusal_outcome (refusing household)
          (MatchBelow (refusing household) (key ''T'') (key ''S'') True False ((), []))
      \<and> started_keys
          (transcript (MatchBelow (refusing household) (key ''T'') (key ''S'') True False ((), [])))
          = [key ''T''])
   \<and> (own_lease_refused (transcript (MakeMaster (refusing household) (key ''T'') ((), [])))
        \<noteq> None
      \<and> lease_refusal_outcome (refusing household)
          (MakeMaster (refusing household) (key ''T'') ((), []))
      \<and> \<not> list_ex is_driver_call
            (transcript (MakeMaster (refusing household) (key ''T'') ((), []))))
   \<and> (own_lease_refused (transcript (MakeLocalMaster (refusing household) (key ''T'') ((), [])))
        \<noteq> None
      \<and> lease_refusal_outcome (refusing household)
          (MakeLocalMaster (refusing household) (key ''T'') ((), []))
      \<and> \<not> list_ex is_driver_call
            (transcript (MakeLocalMaster (refusing household) (key ''T'') ((), []))))
   \<and> (refused_leases
        (transcript (MoveBelow (refusing_only (key ''S'') household) (key ''T'') (key ''S'') ((), [])))
        \<noteq> []
      \<and> lease_refusal_outcome (refusing_only (key ''S'') household)
          (MoveBelow (refusing_only (key ''S'') household) (key ''T'') (key ''S'') ((), []))
      \<and> started_keys
          (transcript (MoveBelow (refusing_only (key ''S'') household) (key ''T'') (key ''S'') ((), [])))
          = [key ''T'', key ''S''])
   \<and> (refused_leases
        (transcript (MatchBelow (refusing_only (key ''S'') household) (key ''T'') (key ''S'')
                       False True ((), [])))
        \<noteq> []
      \<and> lease_refusal_outcome (refusing_only (key ''S'') household)
          (MatchBelow (refusing_only (key ''S'') household) (key ''T'') (key ''S'')
             False True ((), []))
      \<and> started_keys
          (transcript (MatchBelow (refusing_only (key ''S'') household) (key ''T'') (key ''S'')
                         False True ((), [])))
          = [key ''T''])"
proof -
  have p1: "ReadTopologyInstance (refusing household) (key ''T'') ()
              = ((node ''T'' ''M'' 300 200, None), ())"
    and p2: "ReadTopologyInstance (refusing household) (MasterKey (node ''T'' ''M'' 300 200)) ()
              = ((node ''M'' ''G'' 700 800, None), ())"
    and q1: "ReadTopologyInstance (refusing family) (key ''T'') ()
              = ((node ''T'' ''M'' 150 100, None), ())"
    and q2: "ReadTopologyInstance (refusing family) (MasterKey (node ''T'' ''M'' 150 100)) ()
              = ((node ''M'' [] 500 0, None), ())"
    and r1: "ReadTopologyInstance (refusing_only (key ''S'') household) (key ''T'') ()
              = ((node ''T'' ''M'' 300 200, None), ())"
    and r2: "ReadTopologyInstance (refusing_only (key ''S'') household)
                (MasterKey (node ''T'' ''M'' 300 200)) ()
              = ((node ''M'' ''G'' 700 800, None), ())"
    by (simp_all add: scenario_defs)
  have h1: "refused_leases (transcript (MoveUp (refusing household) (key ''T'') ((), []))) \<noteq> []"
    and h2: "refused_leases
        (transcript (MoveBelow (refusing household) (key ''T'') (key ''S'') ((), []))) \<noteq> []"
    and h3: "refused_leases (transcript (MakeCoMaster (refusing family) (key ''T'') ((), []))) \<noteq> []"
    and h4: "refused_leases
        (transcript (ResetSlaveOperation (refusing household) (key ''T'') ((), []))) \<noteq> []"
    and h5: "refused_leases
        (transcript (MatchBelow (refusing household) (key ''T'') (key ''S'') True False ((), [])))
        \<noteq> []"
    and h6: "own_lease_refused (transcript (MakeMaster (refusing household) (key ''T'') ((), [])))
        \<noteq> None"
    and h7: "own_lease_refused
        (transcript (MakeLocalMaster (refusing household) (key ''T'') ((), []))) \<noteq> None"
    and h8: "refused_leases
        (transcript (MoveBelow (refusing_only (key ''S'') household) (key ''T'') (key ''S'') ((), [])))
        \<noteq> []"
    and h9: "refused_leases
        (transcript (MatchBelow (refusing_only (key ''S'') household) (key ''T'') (key ''S'')
                       False True ((), [])))
        \<noteq> []"
    by (simp_all add: operator_defs call_defs scenario_defs run_defs transcript_simps
          InstancesAreSiblings_def)
  note c1 = refused_lease_outcome[OF p1 p2, where k' = "key ''S''" and lockTarget = True
              and lockOther = False]
  note c2 = refused_lease_outcome[OF q1 q2, where k' = "key ''S''" and lockTarget = True
              and lockOther = False]
  note c3 = refused_lease_outcome[OF r1 r2, where k' = "key ''S''" and lockTarget = False
              and lockOther = True]
  from p1 p2 q1 q2 r1 r2 h1 h2 h3 h4 h5 h6 h7 h8 h9 c1 c2 c3 show ?thesis
    by (intro conjI) blast+
qed

text \<open>
  The claim C3 as stated, that a refused lease makes the operator return the error and leaves
  no driver call at all, fails in two ways.
  \<^item> With the lease on the target refused, \<^verbatim>\<open>MoveUp\<close> on \<open>T\<close> in the chain \<open>G \<rightarrow> M \<rightarrow> T\<close> jumps
    to \<^verbatim>\<open>Cleanup\<close> and calls \<^verbatim>\<open>StartSlave\<close> on \<open>T\<close> and on \<open>M\<close>.
  \<^item> A lease that is not the operator's own does not stop it: \<^verbatim>\<open>MakeMaster\<close> on \<open>T\<close> among the
    orphans is granted its lease on \<open>T\<close>; the \<^verbatim>\<open>MatchBelow\<close> it starts for \<open>S1\<close> is refused the
    lease on \<open>S1\<close>, \<^verbatim>\<open>enslaveSiblings\<close> drops that error, and \<^verbatim>\<open>MakeMaster\<close> goes on to re-point
    \<open>S2\<close>, to switch \<open>T\<close> to writable, and returns no error.
\<close>

theorem refused_lease_is_followed_by_driver_calls:
  "refused_leases (transcript (MoveUp (refusing chain) (key ''T'') ((), []))) = [key ''T'']
   \<and> filter is_driver_call (transcript (MoveUp (refusing chain) (key ''T'') ((), [])))
     = [EStartSlave (key ''T'') (node ''T'' ''M'' 300 600) None,
        EStartSlave (key ''M'') (node ''M'' ''G'' 700 800) None]
   \<and> refused_leases
       (transcript (MakeMaster (refusing_only (key ''S1'') orphans) (key ''T'') ((), [])))
     = [key ''S1'']
   \<and> returned_error (MakeMaster (refusing_only (key ''S1'') orphans) (key ''T'') ((), [])) = None
   \<and> filter is_driver_call
       (transcript (MakeMaster (refusing_only (key ''S1'') orphans) (key ''T'') ((), [])))
     = [EStartSlave (key ''S1'') (node ''S1'' ''M'' 300 180) None,
        EStopSlave (key ''S2'') (node ''S2'' ''M'' 300 200) None,
        EChangeMasterTo (key ''S2'') (key ''T'') (coords 9400) (node ''S2'' ''M'' 300 200) None,
        EStartSlave (key ''S2'') (node ''S2'' ''M'' 300 200) None,
        ESetReadOnly (key ''T'') False (node ''T'' ''M'' 300 200) None]"
  by (simp add: operator_defs call_defs scenario_defs run_defs transcript_simps
        InstancesAreSiblings_def)

section \<open>MatchBelow: a failing matcher\<close>

lemma MatchBelow_matcher_failure_run:
  assumes run: "MatchBelow c ik ok requireInstanceMaintenance requireOtherMaintenance (s, [])
                  = ((result, err), (s', tr))"
    and failed: "matcher_failures tr \<noteq> []"
  shows "(\<exists>e. matcher_failures tr = [e] \<and> err = Some e)
       \<and> \<not> list_ex is_ChangeMasterTo tr
       \<and> \<not> list_ex is_AuditOperation tr
       \<and> (\<exists>i i' e'. filter is_driver_call tr = [EStopSlave ik i None, EStartSlave ik i' e'])"
  using run
proof (cases rule: MatchBelow_gates)
  case gate
  with failed show ?thesis by (simp add: transcript_simps)
next
  case (leases target otherInstance s2)
  then show ?thesis
  proof (cases rule: MatchBelow_maintenance_cases)
    case (refused_target t e i1 e1)
    with failed show ?thesis by (simp add: transcript_simps)
  next
    case (granted t1 s2 sd new)
    from granted(1) show ?thesis
    proof (cases rule: MatchBelow_other_maintenance_cases)
      case (refused_other t e i1 e1)
      with granted(2) failed show ?thesis
        by (simp add: transcript_simps split: if_splits)
    next
      case (drive t2 s2 i' sd new')
      from MatchBelow_drive_shape[OF drive(1)] drive(2) granted(2) failed show ?thesis
        by (auto simp: transcript_simps split: if_splits)
    qed
  qed
qed

text \<open>
  C4. When a call of the matcher fails in \<^verbatim>\<open>MatchBelow\<close> (no marker on the target, the marker
  not found on the other instance, or no coordinates to resume from), exactly one matcher call
  failed and its error is the error \<^verbatim>\<open>MatchBelow\<close> returns; \<^verbatim>\<open>ChangeMasterTo\<close> is not called, so
  the target is not re-pointed; no audit record is written; and the driver calls are the
  \<^verbatim>\<open>StopSlave\<close> on the target followed by the \<^verbatim>\<open>StartSlave\<close> on the target.
\<close>

theorem MatchBelow_matcher_failure:
  assumes "r = MatchBelow c instanceKey otherKey requireInstanceMaintenance requireOtherMaintenance (s, [])"
    and "matcher_failures (transcript r) \<noteq> []"
  shows "(\<exists>e. matcher_failures (transcript r) = [e] \<and> returned_error r = Some e)
       \<and> \<not> list_ex is_ChangeMasterTo (transcript r)
       \<and> \<not> list_ex is_AuditOperation (transcript r)
       \<and> (\<exists>i i' e'. filter is_driver_call (transcript r) =
             [EStopSlave instanceKey i None, EStartSlave instanceKey i' e'])"
proof -
  obtain result err s' tr where run: "MatchBelow c instanceKey otherKey requireInstanceMaintenance
      requireOtherMaintenance (s, []) = ((result, err), (s', tr))"
    by (rule run_cases)
  with assms(1) have r: "r = ((result, err), (s', tr))"
    by simp
  with assms(2) have failed: "matcher_failures tr \<noteq> []"
    by (simp add: run_defs)
  from MatchBelow_matcher_failure_run[OF run failed] r show ?thesis
    by (simp add: run_defs)
qed

theorem MatchBelow_matcher_failure_witness:
  "matcher_failures
     (transcript (MatchBelow (markerless family) (key ''T'') (key ''S'') True False ((), []))) \<noteq> []
   \<and> (\<exists>e. matcher_failures
            (transcript (MatchBelow (markerless family) (key ''T'') (key ''S'') True False ((), [])))
            = [e] \<and>
          returned_error (MatchBelow (markerless family) (key ''T'') (key ''S'') True False ((), []))
            = Some e)
   \<and> \<not> list_ex is_ChangeMasterTo
         (transcript (MatchBelow (markerless family) (key ''T'') (key ''S'') True False ((), [])))
   \<and> \<not> list_ex is_AuditOperation
         (transcript (MatchBelow (markerless family) (key ''T'') (key ''S'') True False ((), [])))
   \<and> (\<exists>i i' e'. filter is_driver_call
          (transcript (MatchBelow (markerless family) (key ''T'') (key ''S'') True False ((), []))) =
             [EStopSlave (key ''T'') i None, EStartSlave (key ''T'') i' e'])"
proof -
  let ?r = "MatchBelow (markerless family) (key ''T'') (key ''S'') True False ((), [])"
  have h: "matcher_failures (transcript ?r) \<noteq> []"
    by (simp add: operator_defs call_defs scenario_defs run_defs transcript_simps)
  note c = MatchBelow_matcher_failure[OF refl h]
  from h c show ?thesis
    by (intro conjI) blast+
qed

section \<open>MoveBelow: equalising the two siblings\<close>

lemma SmallerThan_irrefl: "\<not> SmallerThan x x"
  by (simp add: SmallerThan_def)

lemma MoveBelow_equalize_run:
  assumes run: "MoveBelow c ik sk (s, []) = ((result, err), (s', tr))"
    and stopped: "successful_stops tr = [(ik, target), (sk, sibling)]"
  shows "(SmallerThan (ExecBinlogCoordinates target) (ExecBinlogCoordinates sibling) \<longrightarrow>
            (\<exists>i2 i3 e3. repositioning tr =
               [EStartSlaveUntilMasterCoordinates ik (ExecBinlogCoordinates sibling) i2 None,
                EChangeMasterTo ik (Key sibling) (SelfBinlogCoordinates sibling) i3 e3])
          \<or> (\<exists>i2 e. repositioning tr =
               [EStartSlaveUntilMasterCoordinates ik (ExecBinlogCoordinates sibling) i2 (Some e)]))
       \<and> (\<not> SmallerThan (ExecBinlogCoordinates target) (ExecBinlogCoordinates sibling) \<and>
          SmallerThan (ExecBinlogCoordinates sibling) (ExecBinlogCoordinates target) \<longrightarrow>
            (\<exists>sibling2 i3 e3. repositioning tr =
               [EStartSlaveUntilMasterCoordinates sk (ExecBinlogCoordinates target) sibling2 None,
                EChangeMasterTo ik (Key sibling2) (SelfBinlogCoordinates sibling2) i3 e3])
          \<or> (\<exists>sibling2 e. repositioning tr =
               [EStartSlaveUntilMasterCoordinates sk (ExecBinlogCoordinates target) sibling2 (Some e)]))
       \<and> (ExecBinlogCoordinates target = ExecBinlogCoordinates sibling \<longrightarrow>
            (\<exists>i3 e3. repositioning tr =
               [EChangeMasterTo ik (Key sibling) (SelfBinlogCoordinates sibling) i3 e3]))"
  using run
proof (cases rule: MoveBelow_gates)
  case gate
  with stopped show ?thesis by (simp add: transcript_simps)
next
  case (leases target0 sibling0 s2)
  then show ?thesis
  proof (cases rule: MoveBelow_maintenance_cases)
    case (refused_target t e i1 e1 i2 e2)
    with stopped show ?thesis by (simp add: transcript_simps)
  next
    case (refused_sibling t1 t2 e i1 e1 i2 e2)
    with stopped show ?thesis by (simp add: transcript_simps)
  next
    case (drive t1 t2 s2 i' sib' sd new i4 e4 i5 e5)
    from MoveBelow_drive_shape[OF drive(1)] drive(2) stopped show ?thesis
      by (auto simp: transcript_simps SmallerThan_irrefl)
  qed
qed

text \<open>
  C5. Take a run of \<^verbatim>\<open>MoveBelow\<close> in which both \<^verbatim>\<open>StopSlave\<close> calls succeeded, answering
  \<open>target\<close> and \<open>sibling\<close>. Its \<^verbatim>\<open>StartSlaveUntilMasterCoordinates\<close> and \<^verbatim>\<open>ChangeMasterTo\<close> calls are
  then, in order:
  \<^item> when the target's executed coordinates are smaller: one advance of the target up to the
    sibling's executed coordinates and, if that succeeded, the re-pointing of the target to the
    sibling at the sibling's self coordinates; the sibling is not advanced;
  \<^item> when the sibling's are smaller: one advance of the sibling up to the target's executed
    coordinates and, if that succeeded, the re-pointing of the target to the sibling at the self
    coordinates the advance returned for the sibling; the target is not advanced;
  \<^item> when the two are equal: no advance, only the re-pointing of the target to the sibling at
    the sibling's self coordinates.
\<close>

theorem MoveBelow_equalizes_smaller_side:
  assumes "r = MoveBelow c instanceKey siblingKey (s, [])"
    and "successful_stops (transcript r) = [(instanceKey, target), (siblingKey, sibling)]"
  shows "(SmallerThan (ExecBinlogCoordinates target) (ExecBinlogCoordinates sibling) \<longrightarrow>
            (\<exists>i2 i3 e3. repositioning (transcript r) =
               [EStartSlaveUntilMasterCoordinates instanceKey (ExecBinlogCoordinates sibling) i2 None,
                EChangeMasterTo instanceKey (Key sibling) (SelfBinlogCoordinates sibling) i3 e3])
          \<or> (\<exists>i2 e. repositioning (transcript r) =
               [EStartSlaveUntilMasterCoordinates instanceKey (ExecBinlogCoordinates sibling) i2
                  (Some e)]))
       \<and> (\<not> SmallerThan (ExecBinlogCoordinates target) (ExecBinlogCoordinates sibling) \<and>
          SmallerThan (ExecBinlogCoordinates sibling) (ExecBinlogCoordinates target) \<longrightarrow>
            (\<exists>sibling2 i3 e3. repositioning (transcript r) =
               [EStartSlaveUntilMasterCoordinates siblingKey (ExecBinlogCoordinates target) sibling2
                  None,
                EChangeMasterTo instanceKey (Key sibling2) (SelfBinlogCoordinates sibling2) i3 e3])
          \<or> (\<exists>sibling2 e. repositioning (transcript r) =
               [EStartSlaveUntilMasterCoordinates siblingKey (ExecBinlogCoordinates target) sibling2
                  (Some e)]))
       \<and> (ExecBinlogCoordinates target = ExecBinlogCoordinates sibling \<longrightarrow>
            (\<exists>i3 e3. repositioning (transcript r) =
               [EChangeMasterTo instanceKey (Key sibling) (SelfBinlogCoordinates sibling) i3 e3]))"
proof -
  obtain result err s' tr where run: "MoveBelow c instanceKey siblingKey (s, []) = ((result, err), (s', tr))"
    by (rule run_cases)
  with assms(1) have r: "r = ((result, err), (s', tr))"
    by simp
  with assms(2) have stopped: "successful_stops tr = [(instanceKey, target), (siblingKey, sibling)]"
    by (simp add: run_defs)
  from MoveBelow_equalize_run[OF run stopped] r show ?thesis
    by (simp add: run_defs)
qed

theorem MoveBelow_equalizes_smaller_side_witness:
  "successful_stops (transcript (MoveBelow (sim family) (key ''T'') (key ''S'') ((), []))) =
     [(key ''T'', node ''T'' ''M'' 150 100), (key ''S'', node ''S'' ''M'' 200 120)]
   \<and> SmallerThan (ExecBinlogCoordinates (node ''T'' ''M'' 150 100))
        (ExecBinlogCoordinates (node ''S'' ''M'' 200 120))
   \<and> ((\<exists>i2 i3 e3. repositioning (transcript (MoveBelow (sim family) (key ''T'') (key ''S'') ((), []))) =
          [EStartSlaveUntilMasterCoordinates (key ''T'')
             (ExecBinlogCoordinates (node ''S'' ''M'' 200 120)) i2 None,
           EChangeMasterTo (key ''T'') (Key (node ''S'' ''M'' 200 120))
             (SelfBinlogCoordinates (node ''S'' ''M'' 200 120)) i3 e3])
      \<or> (\<exists>i2 e. repositioning (transcript (MoveBelow (sim family) (key ''T'') (key ''S'') ((), []))) =
          [EStartSlaveUntilMasterCoordinates (key ''T'')
             (ExecBinlogCoordinates (node ''S'' ''M'' 200 120)) i2 (Some e)]))"
proof -
  let ?r = "MoveBelow (sim family) (key ''T'') (key ''S'') ((), [])"
  have h: "successful_stops (transcript ?r) =
     [(key ''T'', node ''T'' ''M'' 150 100), (key ''S'', node ''S'' ''M'' 200 120)]"
    by (simp add: operator_defs call_defs scenario_defs run_defs transcript_simps
          InstancesAreSiblings_def)
  have smaller: "SmallerThan (ExecBinlogCoordinates (node ''T'' ''M'' 150 100))
        (ExecBinlogCoordinates (node ''S'' ''M'' 200 120))"
    by (simp add: scenario_defs)
  note c = MoveBelow_equalizes_smaller_side[OF refl h]
  from c smaller have "(\<exists>i2 i3 e3. repositioning (transcript ?r) =
          [EStartSlaveUntilMasterCoordinates (key ''T'')
             (ExecBinlogCoordinates (node ''S'' ''M'' 200 120)) i2 None,
           EChangeMasterTo (key ''T'') (Key (node ''S'' ''M'' 200 120))
             (SelfBinlogCoordinates (node ''S'' ''M'' 200 120)) i3 e3])
      \<or> (\<exists>i2 e. repositioning (transcript ?r) =
          [EStartSlaveUntilMasterCoordinates (key ''T'')
             (ExecBinlogCoordinates (node ''S'' ''M'' 200 120)) i2 (Some e)])"
    by blast
  with h smaller show ?thesis
    by (intro conjI)
qed

section \<open>MakeMaster: a master that is alive and replicating\<close>

text \<open>
  C6. The claim is that \<^verbatim>\<open>MakeMaster\<close> goes on only when the probe of the target's master
  fails, or the master is neither a replica nor valid at its last check. The source tests the
  state of the master only inside \<^verbatim>\<open>if err != nil\<close>, so a master whose probe succeeds is
  never examined. In the chain \<open>G \<rightarrow> M \<rightarrow> T\<close> the probe of \<open>M\<close> succeeds, \<open>M\<close> is a replica and
  its last check is valid; \<^verbatim>\<open>MakeMaster\<close> on \<open>T\<close> still takes the lease, switches \<open>T\<close> to
  writable, writes the audit record and returns no error.
\<close>

theorem MakeMaster_proceeds_under_replicating_master:
  "ReadTopologyInstance (sim chain) (MasterKey (node ''T'' ''M'' 300 600)) ()
     = ((node ''M'' ''G'' 700 800, None), ())
   \<and> IsSlave (sim chain) (node ''M'' ''G'' 700 800)
   \<and> IsLastCheckValid (node ''M'' ''G'' 700 800)
   \<and> returned_error (MakeMaster (sim chain) (key ''T'') ((), [])) = None
   \<and> filter is_driver_call (transcript (MakeMaster (sim chain) (key ''T'') ((), [])))
     = [ESetReadOnly (key ''T'') False (node ''T'' ''M'' 300 600) None]
   \<and> list_ex is_AuditOperation (transcript (MakeMaster (sim chain) (key ''T'') ((), [])))"
  by (simp add: operator_defs call_defs scenario_defs run_defs)

section \<open>MakeCoMaster: refusing a co-master or a master with a known master\<close>

text \<open>
  C7. \<^verbatim>\<open>MakeCoMaster\<close> probes the target and its master. When both probes succeed and either
  the target's key is the master key of its master (the two are co-masters already) or the
  inventory knows the master of the master, \<^verbatim>\<open>MakeCoMaster\<close> returns an error and issues no
  lease, driver or audit call: the transcript is as it was, and the world is as the two probes
  left it. The eligibility verdicts are taken to carry a reason when they refuse; when both
  verdicts allow the move, the error is one of the two precondition messages.
\<close>

theorem MakeCoMaster_refuses_known_master:
  assumes "ReadTopologyInstance c instanceKey s = ((instance, None), s1)"
    and "ReadTopologyInstance c (MasterKey instance) s1 = ((master, None), s2)"
    and "instanceKey = MasterKey master \<or> fst (snd (ReadInstance c (MasterKey master) s2))"
    and "gives_reason (CanMoveAsCoMaster c (fst (ReadInstance c (Key master) s2)))"
    and "gives_reason (CanMove c (fst (ReadInstance c instanceKey s2)))"
  shows "(\<exists>e. MakeCoMaster c instanceKey (s, tr) = ((instance, Some e), (s2, tr)))
       \<and> (fst (CanMoveAsCoMaster c (fst (ReadInstance c (Key master) s2))) \<and>
          fst (CanMove c (fst (ReadInstance c instanceKey s2))) \<longrightarrow>
            returned_error (MakeCoMaster c instanceKey (s, tr)) \<in>
              {Some (Sprintf c ''instance  %+v is already co master of %+v''
                       [KeyPtrArg instanceKey, KeyArg (Key master)]),
               Some (Sprintf c ''master %+v already has known master: %+v''
                       [KeyArg (Key master), KeyArg (MasterKey master)])})"
  using assms
  by (auto simp: MakeCoMaster_def call_defs gives_reason_def run_defs split: prod.splits)

theorem MakeCoMaster_refuses_known_master_witness:
  "ReadTopologyInstance (sim comasters) (key ''A'') () = ((node ''A'' ''B'' 10 20, None), ())
   \<and> ReadTopologyInstance (sim comasters) (MasterKey (node ''A'' ''B'' 10 20)) ()
       = ((node ''B'' ''A'' 30 40, None), ())
   \<and> key ''A'' = MasterKey (node ''B'' ''A'' 30 40)
   \<and> fst (CanMoveAsCoMaster (sim comasters)
            (fst (ReadInstance (sim comasters) (Key (node ''B'' ''A'' 30 40)) ())))
   \<and> fst (CanMove (sim comasters) (fst (ReadInstance (sim comasters) (key ''A'') ())))
   \<and> (\<exists>e. MakeCoMaster (sim comasters) (key ''A'') ((), [])
            = ((node ''A'' ''B'' 10 20, Some e), ((), [])))
   \<and> returned_error (MakeCoMaster (sim comasters) (key ''A'') ((), [])) \<in>
        {Some (Sprintf (sim comasters) ''instance  %+v is already co master of %+v''
                 [KeyPtrArg (key ''A''), KeyArg (Key (node ''B'' ''A'' 30 40))]),
         Some (Sprintf (sim comasters) ''master %+v already has known master: %+v''
                 [KeyArg (Key (node ''B'' ''A'' 30 40)), KeyArg (MasterKey (node ''B'' ''A'' 30 40))])}"
proof -
  have p1: "ReadTopologyInstance (sim comasters) (key ''A'') () = ((node ''A'' ''B'' 10 20, None), ())"
    and p2: "ReadTopologyInstance (sim comasters) (MasterKey (node ''A'' ''B'' 10 20)) ()
       = ((node ''B'' ''A'' 30 40, None), ())"
    and already: "key ''A'' = MasterKey (node ''B'' ''A'' 30 40)"
    and g1: "fst (CanMoveAsCoMaster (sim comasters)
            (fst (ReadInstance (sim comasters) (Key (node ''B'' ''A'' 30 40)) ())))"
    and g2: "fst (CanMove (sim comasters) (fst (ReadInstance (sim comasters) (key ''A'') ())))"
    by (simp_all add: scenario_defs)
  from already have a: "key ''A'' = MasterKey (node ''B'' ''A'' 30 40)
      \<or> fst (snd (ReadInstance (sim comasters) (MasterKey (node ''B'' ''A'' 30 40)) ()))"
    by (rule disjI1)
  from g1 g2 have r1: "gives_reason (CanMoveAsCoMaster (sim comasters)
            (fst (ReadInstance (sim comasters) (Key (node ''B'' ''A'' 30 40)) ())))"
    and r2: "gives_reason (CanMove (sim comasters) (fst (ReadInstance (sim comasters) (key ''A'') ())))"
    by (simp_all add: gives_reason_def)
  note c = MakeCoMaster_refuses_known_master[OF p1 p2 a r1 r2, of "[]"]
  from p1 p2 already g1 g2 c show ?thesis
    by (intro conjI) blast+
qed

section \<open>The order of the lease requests\<close>







section \<open>AsciiTopology: a cluster without a root\<close>

lemma dom_instancesMap:
  "dom (fold (\<lambda>p m. m(Key (snd p) \<mapsto> p)) ptrs m0) = dom m0 \<union> (\<lambda>p. Key (snd p)) ` set ptrs"
  by (induction ptrs arbitrary: m0) auto

lemma investigate_keeps_nil:
  "\<forall>p \<in> set ptrs. MasterKey (snd p) \<in> dom instancesMap \<Longrightarrow>
   snd (fold (investigate instancesMap) ptrs (replicationMap, None)) = None"
proof (induction ptrs arbitrary: replicationMap)
  case Nil
  then show ?case by simp
next
  case (Cons p ptrs)
  from Cons.prems obtain m where "instancesMap (MasterKey (snd p)) = Some m"
    by auto
  with Cons show ?case
    by (simp add: investigate_def)
qed

lemma snd_zip_upt: "snd ` set (zip [0..<length xs] xs) = set xs"
proof -
  have "snd ` set (zip [0..<length xs] xs) = set (map snd (zip [0..<length xs] xs))"
    by (simp only: set_map)
  also have "map snd (zip [0..<length xs] xs) = xs"
    by (simp add: map_snd_zip)
  finally show ?thesis .
qed

text \<open>
  C9. When \<^verbatim>\<open>ReadClusterInstances\<close> succeeds and the master key of every instance it returned
  is the key of one of those instances (the empty list and a co-master pair are such
  clusters), \<^verbatim>\<open>masterInstance\<close> is never assigned and \<^verbatim>\<open>AsciiTopology\<close> dereferences the nil
  pointer; it does not return, with an error or otherwise. This holds for every bound on the
  recursion depth.
\<close>

theorem AsciiTopology_without_root_dereferences_nil:
  assumes "ReadClusterInstances c clusterName s = (instances, None)"
    and "\<forall>i \<in> set instances. MasterKey i \<in> Key ` set instances"
  shows "AsciiTopology c fuel clusterName s = Some NilPointerDereference"
proof -
  let ?ptrs = "zip [0..<length instances] instances"
  let ?im = "fold (\<lambda>p m. m(Key (snd p) \<mapsto> p)) ?ptrs Map.empty"
  have dom: "dom ?im = Key ` set instances"
    using snd_zip_upt[of instances] by (simp add: dom_instancesMap image_image[symmetric])
  have "\<forall>p \<in> set ?ptrs. MasterKey (snd p) \<in> dom ?im"
  proof
    fix p assume "p \<in> set ?ptrs"
    then have "snd p \<in> set instances"
      using snd_zip_upt[of instances] by (metis imageI)
    with assms(2) dom show "MasterKey (snd p) \<in> dom ?im"
      by simp
  qed
  then have "snd (fold (investigate ?im) ?ptrs (Map.empty, None)) = None"
    by (rule investigate_keeps_nil)
  with assms(1) show ?thesis
    by (simp add: AsciiTopology_def Let_def)
qed

theorem AsciiTopology_without_root_dereferences_nil_witness:
  "ReadClusterInstances (sim comasters) ''cluster'' () = (comasters, None)
   \<and> list_all (\<lambda>i. MasterKey i \<in> Key ` set comasters) comasters
   \<and> (\<forall>fuel. AsciiTopology (sim comasters) fuel ''cluster'' () = Some NilPointerDereference)"
proof -
  have h1: "ReadClusterInstances (sim comasters) ''cluster'' () = (comasters, None)"
    by (simp add: scenario_defs)
  have h2: "list_all (\<lambda>i. MasterKey i \<in> Key ` set comasters) comasters"
    by (simp add: scenario_defs)
  then have h2': "\<forall>i \<in> set comasters. MasterKey i \<in> Key ` set comasters"
    by (simp add: list_all_iff)
  from AsciiTopology_without_root_dereferences_nil[OF h1 h2'] h1 h2 show ?thesis
    by blast
qed

section \<open>MakeMaster: the result of SetReadOnly\<close>

lemma MakeMaster_SetReadOnly_run:
  assumes run: "MakeMaster c ik (s, []) = ((result, err), (s', tr))"
    and reached: "ESetReadOnly ik False i e \<in> set tr"
  shows "err = None \<and>
         EAuditOperation ''make-master'' ik (Sprintf c ''made master of %+v'' [KeyArg ik]) \<in> set tr"
  using run
proof (cases rule: MakeMaster_gates)
  case gate
  with reached show ?thesis by simp
next
  case (leases target siblings s2)
  then show ?thesis
  proof (cases rule: MakeMaster_maintenance_cases)
    case (refused t e')
    with reached show ?thesis by simp
  next
    case (drive t1 new i' e')
    then show ?thesis by simp
  qed
qed

text \<open>
  C10. Once \<^verbatim>\<open>MakeMaster\<close> has called \<^verbatim>\<open>SetReadOnly(instanceKey, false)\<close>, whatever that call
  answered (an error included), \<^verbatim>\<open>MakeMaster\<close> returns no error and writes the \<^verbatim>\<open>make-master\<close>
  audit record.
\<close>

theorem MakeMaster_discards_SetReadOnly_result:
  assumes "r = MakeMaster c instanceKey (s, [])"
    and "ESetReadOnly instanceKey False i e \<in> set (transcript r)"
  shows "returned_error r = None \<and>
         EAuditOperation ''make-master'' instanceKey
           (Sprintf c ''made master of %+v'' [KeyArg instanceKey]) \<in> set (transcript r)"
proof -
  obtain result err s' tr where run: "MakeMaster c instanceKey (s, []) = ((result, err), (s', tr))"
    by (rule run_cases)
  with assms(1) have r: "r = ((result, err), (s', tr))"
    by simp
  with assms(2) have "ESetReadOnly instanceKey False i e \<in> set tr"
    by (simp add: run_defs)
  from MakeMaster_SetReadOnly_run[OF run this] r show ?thesis
    by (simp add: run_defs)
qed

theorem MakeMaster_discards_SetReadOnly_result_witness:
  "ESetReadOnly (key ''T'') False (node ''T'' ''M'' 300 200) (Some ''cannot set read_only'')
     \<in> set (transcript (MakeMaster (stuck_read_only orphans) (key ''T'') ((), [])))
   \<and> returned_error (MakeMaster (stuck_read_only orphans) (key ''T'') ((), [])) = None
   \<and> EAuditOperation ''make-master'' (key ''T'')
        (Sprintf (stuck_read_only orphans) ''made master of %+v'' [KeyArg (key ''T'')])
     \<in> set (transcript (MakeMaster (stuck_read_only orphans) (key ''T'') ((), [])))"
proof -
  let ?r = "MakeMaster (stuck_read_only orphans) (key ''T'') ((), [])"
  have h: "ESetReadOnly (key ''T'') False (node ''T'' ''M'' 300 200) (Some ''cannot set read_only'')
     \<in> set (transcript ?r)"
    by (simp add: operator_defs call_defs scenario_defs run_defs transcript_simps)
  note c = MakeMaster_discards_SetReadOnly_result[OF refl h]
  from h c show ?thesis
    by (intro conjI) blast+
qed

end
